theory Spec2Isabelle
  imports Main "HOL-Library.Word" "HOL-Library.AList"
begin

section \<open>Shared terminal service: output sanitisation\<close>

text \<open>
  \<^verbatim>\<open>SharedTerminalService.sanitizeOutput\<close> works on a JavaScript string, that is, on a
  sequence of 16-bit code units. The first \<^verbatim>\<open>replace\<close> deletes every match of
  \<^verbatim>\<open>/\x1b\[[0-9;]*m/g\<close>, the second every code unit of the class
  \<^verbatim>\<open>[\x00-\x08\x0B\x0C\x0E-\x1F\x7F]\<close>; the result is then cut at
  \<^verbatim>\<open>MAX_OUTPUT_SIZE\<close> code units and the marker is appended.
\<close>

type_synonym jsstring = "16 word list"

definition MAX_OUTPUT_SIZE :: nat where
  "MAX_OUTPUT_SIZE = 50000"

text \<open>The marker \<^verbatim>\<open>'\n[Output truncated...]\n'\<close> as code units.\<close>

definition truncationMarker :: jsstring where
  "truncationMarker =
     [0x0A, 0x5B, 0x4F, 0x75, 0x74, 0x70, 0x75, 0x74, 0x20, 0x74, 0x72, 0x75, 0x6E, 0x63,
      0x61, 0x74, 0x65, 0x64, 0x2E, 0x2E, 0x2E, 0x5D, 0x0A]"

text \<open>The class \<^verbatim>\<open>[0-9;]\<close>.\<close>

definition isAnsiParam :: "16 word \<Rightarrow> bool" where
  "isAnsiParam c = ((0x30 \<le> c \<and> c \<le> 0x39) \<or> c = 0x3B)"

text \<open>
  A match of \<^verbatim>\<open>\x1b\[[0-9;]*m\<close> anchored at the head of the list; the result is what
  follows the match. The star is greedy, and since \<^verbatim>\<open>m\<close> is not in the class, a shorter
  run can never be followed by \<^verbatim>\<open>m\<close>: the match is decided by the code unit after the
  longest run.
\<close>

fun matchAnsiColor :: "jsstring \<Rightarrow> jsstring option" where
  "matchAnsiColor (e # b # rest) =
     (if e = 0x1B \<and> b = 0x5B
      then (case dropWhile isAnsiParam rest of
              [] \<Rightarrow> None
            | m # after \<Rightarrow> if m = 0x6D then Some after else None)
      else None)"
| "matchAnsiColor _ = None"

lemma matchAnsiColor_shorter:
  "matchAnsiColor cs = Some after \<Longrightarrow> length after < length cs"
proof (cases cs rule: matchAnsiColor.cases)
  case (1 e b rest)
  assume m: "matchAnsiColor cs = Some after"
  have "length (dropWhile isAnsiParam rest) \<le> length rest"
    by (rule length_dropWhile_le)
  with m 1 show ?thesis
    by (auto split: if_splits list.splits)
qed simp_all

text \<open>The global replace: leftmost matches, left to right, never overlapping.\<close>

function removeAnsiColors :: "jsstring \<Rightarrow> jsstring" where
  "removeAnsiColors [] = []"
| "removeAnsiColors (c # cs) =
     (case matchAnsiColor (c # cs) of
        Some after \<Rightarrow> removeAnsiColors after
      | None \<Rightarrow> c # removeAnsiColors cs)"
  by pat_completeness auto
termination
  by (relation "measure length") (auto dest: matchAnsiColor_shorter)

text \<open>The class \<^verbatim>\<open>[\x00-\x08\x0B\x0C\x0E-\x1F\x7F]\<close>.\<close>

definition isRemovedControl :: "16 word \<Rightarrow> bool" where
  "isRemovedControl c =
     (c \<le> 0x08 \<or> c = 0x0B \<or> c = 0x0C \<or> (0x0E \<le> c \<and> c \<le> 0x1F) \<or> c = 0x7F)"

definition removeControlChars :: "jsstring \<Rightarrow> jsstring" where
  "removeControlChars s = filter (\<lambda>c. \<not> isRemovedControl c) s"

definition sanitizeOutput :: "jsstring \<Rightarrow> jsstring" where
  "sanitizeOutput output =
     (let sanitized = removeControlChars (removeAnsiColors output)
      in if length sanitized > MAX_OUTPUT_SIZE
         then take MAX_OUTPUT_SIZE sanitized @ truncationMarker
         else sanitized)"

text \<open>
  What the property calls a control or escape character: an ASCII control code (below
  \<^verbatim>\<open>0x20\<close>, which includes ESC \<^verbatim>\<open>0x1B\<close>, or DEL \<^verbatim>\<open>0x7F\<close>); tab, newline and
  carriage return are the three that may stay.
\<close>

definition isAsciiControl :: "16 word \<Rightarrow> bool" where
  "isAsciiControl c = (c < 0x20 \<or> c = 0x7F)"

definition isTabNewlineOrReturn :: "16 word \<Rightarrow> bool" where
  "isTabNewlineOrReturn c = (c = 0x09 \<or> c = 0x0A \<or> c = 0x0D)"

text \<open>
  A control character of Unicode (general category Cc) is a code unit in
  \<^verbatim>\<open>U+0000\<close> to \<^verbatim>\<open>U+001F\<close> or in \<^verbatim>\<open>U+007F\<close> to \<^verbatim>\<open>U+009F\<close>; the upper ones
  include \<^verbatim>\<open>U+009B\<close>, the one-unit form of the escape \<^verbatim>\<open>ESC [\<close>.
\<close>

definition isControlCodeUnit :: "16 word \<Rightarrow> bool" where
  "isControlCodeUnit c = (c \<le> 0x1F \<or> (0x7F \<le> c \<and> c \<le> 0x9F))"

section \<open>Strings of the execution service\<close>

text \<open>
  The execution service only builds, compares and passes on its strings, so they are
  character lists here. The helpers below are the JavaScript string operations it uses.
\<close>

definition dquote :: char where "dquote = CHR 0x22"
definition squote :: char where "squote = CHR 0x27"
definition backslash :: char where "backslash = CHR 0x5C"
definition newline :: char where "newline = CHR 0x0A"

text \<open>\<^verbatim>\<open>Array.prototype.join\<close>.\<close>

fun joinWith :: "string \<Rightarrow> string list \<Rightarrow> string" where
  "joinWith sep [] = []"
| "joinWith sep [x] = x"
| "joinWith sep (x # y # ys) = x @ sep @ joinWith sep (y # ys)"

text \<open>\<^verbatim>\<open>s.replace(/c/g, r)\<close> for a single character \<^verbatim>\<open>c\<close>.\<close>

definition replaceAllChar :: "char \<Rightarrow> string \<Rightarrow> string \<Rightarrow> string" where
  "replaceAllChar c r s = concat (map (\<lambda>x. if x = c then r else [x]) s)"

text \<open>\<^verbatim>\<open>s.replace(pat, r)\<close> for a string pattern: the first occurrence only.\<close>

fun replaceFirst :: "string \<Rightarrow> string \<Rightarrow> string \<Rightarrow> string" where
  "replaceFirst pat r [] = (if pat = [] then r else [])"
| "replaceFirst pat r (c # cs) =
     (if take (length pat) (c # cs) = pat then r @ drop (length pat) (c # cs)
      else c # replaceFirst pat r cs)"

text \<open>\<^verbatim>\<open>toLowerCase\<close> on the ASCII letters.\<close>

definition toLowerChar :: "char \<Rightarrow> char" where
  "toLowerChar c =
     (if (65::nat) \<le> of_char c \<and> of_char c \<le> (90::nat) then char_of (of_char c + (32::nat))
      else c)"

definition toLowerCase :: "string \<Rightarrow> string" where
  "toLowerCase s = map toLowerChar s"

text \<open>The decimal rendering of a number inside a template literal.\<close>

fun showNat :: "nat \<Rightarrow> string" where
  "showNat n =
     (if n < 10 then [char_of (48 + n)] else showNat (n div 10) @ [char_of (48 + n mod 10)])"

declare showNat.simps [simp del]

text \<open>\<^verbatim>\<open>split('\n')\<close>: the pieces between newlines, the last one possibly empty.\<close>

fun splitLines :: "string \<Rightarrow> string list" where
  "splitLines [] = [[]]"
| "splitLines (c # cs) =
     (if c = newline then [] # splitLines cs
      else (case splitLines cs of
              [] \<Rightarrow> [[c]]
            | l # ls \<Rightarrow> (c # l) # ls))"

text \<open>
  \<^verbatim>\<open>trim\<close> on the ASCII white space. The trim of JavaScript also strips the other white
  space and line terminators of Unicode (\<^verbatim>\<open>U+00A0\<close>, \<^verbatim>\<open>U+FEFF\<close>, \<^verbatim>\<open>U+2028\<close> and so on);
  strings here are lists of 8-bit characters, and file names with such characters at
  their ends are outside what is modelled.
\<close>

definition isSpaceChar :: "char \<Rightarrow> bool" where
  "isSpaceChar c = (c = CHR 0x20 \<or> c = CHR 0x09 \<or> c = CHR 0x0A \<or> c = CHR 0x0B
     \<or> c = CHR 0x0C \<or> c = CHR 0x0D)"

definition trim :: "string \<Rightarrow> string" where
  "trim s = rev (dropWhile isSpaceChar (rev (dropWhile isSpaceChar s)))"

text \<open>JavaScript truthiness of an optional string: present and not empty.\<close>

fun truthy :: "string option \<Rightarrow> bool" where
  "truthy None = False"
| "truthy (Some v) = (v \<noteq> [])"

section \<open>Language profiles\<close>

text \<open>
  \<^verbatim>\<open>LanguageTier\<close> of \<^verbatim>\<open>config/dynamicLanguages.ts\<close>, with the fields the execution
  services read. The cost tier, the resource limits and the base image are read only by
  the container layer and are left out. An optional field is an \<open>option\<close>: an empty array
  \<^verbatim>\<open>[]\<close> is \<open>Some []\<close>, which JavaScript counts as present.
\<close>

record LanguageTier =
  tierName :: string
  setupCommands :: "string list"
  fileExtension :: string
  executeCommand :: "string \<Rightarrow> string list"
  packageInstallCommand :: "string list option"
  commonPackages :: "string list option"
  active :: "bool option"

definition pythonTier :: LanguageTier where
  "pythonTier = \<lparr>
     tierName = ''Python'',
     setupCommands =
       [''apt-get update && apt-get install -y --no-install-recommends gcc libc6-dev build-essential && rm -rf /var/lib/apt/lists/*'',
        ''pip install --no-cache-dir pip --upgrade'',
        ''pip install --no-cache-dir requests urllib3 numpy pandas matplotlib seaborn plotly scikit-learn''],
     fileExtension = ''.py'',
     executeCommand = (\<lambda>fileName. [''python'', ''-u'', fileName]),
     packageInstallCommand = Some [''pip'', ''install'', ''--no-cache-dir''],
     commonPackages = Some [''requests'', ''numpy'', ''pandas'', ''matplotlib'', ''seaborn'',
       ''plotly'', ''scikit-learn'', ''flask'', ''django'', ''fastapi''],
     active = Some True \<rparr>"

definition javascriptTier :: LanguageTier where
  "javascriptTier = \<lparr>
     tierName = ''JavaScript (Node.js)'',
     setupCommands =
       [''apt-get update && apt-get install -y --no-install-recommends python3 make g++ && rm -rf /var/lib/apt/lists/*'',
        ''npm install -g npm@latest''],
     fileExtension = ''.js'',
     executeCommand = (\<lambda>fileName. [''node'', fileName]),
     packageInstallCommand = Some [''npm'', ''install'', ''--no-save''],
     commonPackages = Some [''lodash'', ''axios'', ''express'', ''socket.io'', ''moment'',
       ''uuid'', ''fs-extra'', ''chalk''],
     active = Some True \<rparr>"

definition goTier :: LanguageTier where
  "goTier = \<lparr>
     tierName = ''Go'',
     setupCommands = [''apk add --no-cache git''],
     fileExtension = ''.go'',
     executeCommand = (\<lambda>fileName. [''go'', ''run'', fileName]),
     packageInstallCommand = Some [''go'', ''get''],
     commonPackages = Some [],
     active = Some True \<rparr>"

definition cppTier :: LanguageTier where
  "cppTier = \<lparr>
     tierName = ''C++'',
     setupCommands =
       [''apt-get update && apt-get install -y --no-install-recommends && rm -rf /var/lib/apt/lists/*''],
     fileExtension = ''.cpp'',
     executeCommand = (\<lambda>fileName.
       [''sh'', ''-c'', ''g++ -std=c++17 '' @ fileName @ '' -o output && ./output'']),
     packageInstallCommand = Some [],
     commonPackages = Some [],
     active = Some True \<rparr>"

definition javaTier :: LanguageTier where
  "javaTier = \<lparr>
     tierName = ''Java'',
     setupCommands =
       [''apt-get update && apt-get install -y --no-install-recommends && rm -rf /var/lib/apt/lists/*''],
     fileExtension = ''.java'',
     executeCommand = (\<lambda>fileName.
       [''sh'', ''-c'',
        ''javac '' @ fileName @ '' && java '' @ replaceFirst ''.java'' [] fileName]),
     packageInstallCommand = Some [],
     commonPackages = Some [],
     active = Some True \<rparr>"

text \<open>
  The table \<^verbatim>\<open>languageTiers\<close>: a lookup by the exact key among the own properties of the
  object literal. In the code \<^verbatim>\<open>languageTiers[key]\<close> also finds the names inherited from
  \<^verbatim>\<open>Object.prototype\<close> (\<^verbatim>\<open>constructor\<close>, \<^verbatim>\<open>toString\<close>, \<^verbatim>\<open>__proto__\<close> and so on), whose
  values are truthy and are no language profiles; for these keys the table below answers
  \<open>None\<close> where the code goes on with an object that has none of the fields of a profile.
  The properties below that name a language use \<^verbatim>\<open>python\<close>, \<^verbatim>\<open>cpp\<close>, \<^verbatim>\<open>java\<close> and
  \<^verbatim>\<open>ruby\<close>, none of them an inherited name; those stated for every table take the table
  as the parameter \<open>tiers\<close>.
\<close>

definition languageTiers :: "string \<Rightarrow> LanguageTier option" where
  "languageTiers =
     map_of [(''python'', pythonTier), (''javascript'', javascriptTier), (''go'', goTier),
             (''cpp'', cppTier), (''java'', javaTier)]"

section \<open>The container layer and the clock, as parameters\<close>

text \<open>
  \<^verbatim>\<open>DynamicDockerService\<close>, Node's \<^verbatim>\<open>path\<close> module and the clock are the environment of
  the execution services. They are parameters of the model: every call takes the state
  \<open>'w\<close> of the outside world and returns its answer with the new world; \<open>Inl message\<close> is a
  rejected promise (a thrown error with that message). Nothing is assumed about what the
  container layer answers. Calls are taken one after the other: a handler runs to its end
  before the next one starts.
\<close>

record CommandResult =
  cmdOutput :: string
  cmdError :: string
  cmdExecutionTime :: int

record ContainerConfig =
  cfgLanguage :: string
  cfgIsPersistent :: bool
  cfgRoomId :: "string option"
  cfgCustomPackages :: "string list option"

record 'w Runtime =
  dockerExecuteCommand :: "string \<Rightarrow> string \<Rightarrow> 'w \<Rightarrow> (string + CommandResult) \<times> 'w"
  createDynamicContainer :: "ContainerConfig \<Rightarrow> 'w \<Rightarrow> (string + string) \<times> 'w"
  destroyContainer :: "string \<Rightarrow> 'w \<Rightarrow> (string + unit) \<times> 'w"
  dateNow :: "'w \<Rightarrow> nat"
  pathJoin :: "string \<Rightarrow> string \<Rightarrow> string"
  pathDirname :: "string \<Rightarrow> string"
  pathBasename :: "string \<Rightarrow> string"

section \<open>Session-free execution service\<close>

text \<open>
  The service reads its profiles from the table \<^verbatim>\<open>languageTiers\<close>. The functions below
  take the table as their first argument \<open>tiers\<close>; \<^const>\<open>languageTiers\<close> is the table as
  shipped.
\<close>

record PersistentExecutionContext =
  contextId :: string
  containerId :: string
  language :: string
  workingDir :: string
  installedPackages :: "string set"
  userId :: string
  lastUsed :: nat
  createdAt :: nat

record SessionFreeExecutionRequest =
  reqCode :: string
  reqLanguage :: string
  reqFileName :: "string option"
  reqInput :: "string option"
  reqPackages :: "string list option"
  reqUserId :: "string option"
  reqTimeout :: "nat option"

text \<open>
  \<^verbatim>\<open>Omit<SessionFreeExecutionResult, 'executionTime' | 'contextId'>\<close> and the full result.
\<close>

record ExecutionOutcome =
  resultOutput :: string
  resultError :: string
  exitCode :: int
  files :: "string list option"

text \<open>
  \<^verbatim>\<open>CodeExecutionResult\<close> of the enhanced service (its optional \<^verbatim>\<open>memoryUsage\<close> is never
  set), and \<^verbatim>\<open>SessionFreeExecutionResult\<close>, which adds the context id.
\<close>

record CodeExecutionResult = ExecutionOutcome +
  executionTime :: int

record SessionFreeExecutionResult = CodeExecutionResult +
  resultContextId :: string

text \<open>The calls that reach the container layer, in the order they are issued.\<close>

datatype DockerCall =
    ExecuteCommand string string
  | CreateDynamicContainer ContainerConfig
  | DestroyContainer string

text \<open>
  The state of the service: the map \<^verbatim>\<open>persistentContexts\<close> in insertion order (a
  JavaScript \<^verbatim>\<open>Map\<close> iterates in that order, and \<^verbatim>\<open>set\<close> on a present key keeps its
  place), the outside world, and the log of the calls issued so far.
\<close>

record 'w ServiceState =
  persistentContexts :: "(string \<times> PersistentExecutionContext) list"
  world :: 'w
  dockerCalls :: "DockerCall list"

definition MAX_CONTEXTS_PER_USER :: nat where
  "MAX_CONTEXTS_PER_USER = 5"

definition dockerExec ::
  "'w Runtime \<Rightarrow> string \<Rightarrow> string \<Rightarrow> 'w ServiceState
     \<Rightarrow> (string + CommandResult) \<times> 'w ServiceState" where
  "dockerExec rt cid command s =
     (case dockerExecuteCommand rt cid command (world s) of
        (r, w) \<Rightarrow> (r, s\<lparr>world := w, dockerCalls := dockerCalls s @ [ExecuteCommand cid command]\<rparr>))"

definition dockerCreate ::
  "'w Runtime \<Rightarrow> ContainerConfig \<Rightarrow> 'w ServiceState \<Rightarrow> (string + string) \<times> 'w ServiceState" where
  "dockerCreate rt cfg s =
     (case createDynamicContainer rt cfg (world s) of
        (r, w) \<Rightarrow> (r, s\<lparr>world := w, dockerCalls := dockerCalls s @ [CreateDynamicContainer cfg]\<rparr>))"

definition dockerDestroy ::
  "'w Runtime \<Rightarrow> string \<Rightarrow> 'w ServiceState \<Rightarrow> (string + unit) \<times> 'w ServiceState" where
  "dockerDestroy rt cid s =
     (case destroyContainer rt cid (world s) of
        (r, w) \<Rightarrow> (r, s\<lparr>world := w, dockerCalls := dockerCalls s @ [DestroyContainer cid]\<rparr>))"

definition contextKeyOf :: "string \<Rightarrow> string \<Rightarrow> string" where
  "contextKeyOf uid lang = uid @ '':'' @ lang"

definition aliveProbe :: string where
  "aliveProbe = ''echo '' @ [dquote] @ ''alive'' @ [dquote]"

subsection \<open>\<^verbatim>\<open>enforceUserContextLimit\<close>\<close>

text \<open>
  The owner's entries, sorted by \<^verbatim>\<open>lastUsed\<close> (\<^verbatim>\<open>Array.prototype.sort\<close> is stable, as is
  \<^const>\<open>sort_key\<close>), then the \<^verbatim>\<open>while\<close> loop: as long as at least
  \<^verbatim>\<open>MAX_CONTEXTS_PER_USER\<close> entries are left, the first one is shifted off, its container
  destroyed (a failure is only logged) and its key deleted from the map.
\<close>

fun evictWhileOverLimit ::
  "'w Runtime \<Rightarrow> (string \<times> PersistentExecutionContext) list \<Rightarrow> 'w ServiceState
     \<Rightarrow> 'w ServiceState" where
  "evictWhileOverLimit rt [] s = s"
| "evictWhileOverLimit rt ((key, context) # userContexts) s =
     (if length ((key, context) # userContexts) \<ge> MAX_CONTEXTS_PER_USER
      then (case dockerDestroy rt (containerId context) s of
              (r, s1) \<Rightarrow>
                evictWhileOverLimit rt userContexts
                  (s1\<lparr>persistentContexts := AList.delete key (persistentContexts s1)\<rparr>))
      else s)"

definition userContextsByAge ::
  "string \<Rightarrow> (string \<times> PersistentExecutionContext) list
     \<Rightarrow> (string \<times> PersistentExecutionContext) list" where
  "userContextsByAge uid entries =
     sort_key (\<lambda>(key, context). lastUsed context)
       (filter (\<lambda>(key, context). userId context = uid) entries)"

definition enforceUserContextLimit ::
  "'w Runtime \<Rightarrow> string \<Rightarrow> 'w ServiceState \<Rightarrow> 'w ServiceState" where
  "enforceUserContextLimit rt uid s =
     evictWhileOverLimit rt (userContextsByAge uid (persistentContexts s)) s"

subsection \<open>\<^verbatim>\<open>getOrCreatePersistentContext\<close>\<close>

text \<open>The setup commands, each in its own \<^verbatim>\<open>try\<close>: a failure is only logged.\<close>

fun runSetupCommands ::
  "'w Runtime \<Rightarrow> string \<Rightarrow> string list \<Rightarrow> 'w ServiceState \<Rightarrow> 'w ServiceState" where
  "runSetupCommands rt cid [] s = s"
| "runSetupCommands rt cid (command # commands) s =
     (case dockerExec rt cid command s of
        (r, s1) \<Rightarrow> runSetupCommands rt cid commands s1)"

text \<open>
  Lines 100 to 145 of \<^verbatim>\<open>getOrCreatePersistentContext\<close>: what runs when no live context
  was found. The quota is enforced first, then the language is looked up.
\<close>

definition createPersistentContext ::
  "(string \<Rightarrow> LanguageTier option) \<Rightarrow> 'w Runtime \<Rightarrow> string \<Rightarrow> string \<Rightarrow> 'w ServiceState
     \<Rightarrow> (string + PersistentExecutionContext) \<times> 'w ServiceState" where
  "createPersistentContext tiers rt uid lang s =
     (let s1 = enforceUserContextLimit rt uid s in
      case tiers lang of
        None \<Rightarrow> (Inl (''Unsupported language: '' @ lang), s1)
      | Some languageConfig \<Rightarrow>
          (let cid0 = uid @ ''-'' @ lang @ ''-'' @ showNat (dateNow rt (world s1));
               wdir = ''/app/workspace/'' @ cid0;
               containerConfig = \<lparr>cfgLanguage = lang, cfgIsPersistent = True,
                 cfgRoomId = Some cid0, cfgCustomPackages = None\<rparr>
           in case dockerCreate rt containerConfig s1 of
                (Inl e, s2) \<Rightarrow> (Inl e, s2)
              | (Inr cid, s2) \<Rightarrow>
                  (let s3 = runSetupCommands rt cid (setupCommands languageConfig) s2;
                       context = \<lparr>contextId = cid0, containerId = cid, language = lang,
                         workingDir = wdir, installedPackages = {}, userId = uid,
                         lastUsed = dateNow rt (world s3), createdAt = dateNow rt (world s3)\<rparr>
                   in (Inr context,
                       s3\<lparr>persistentContexts :=
                            AList.update (contextKeyOf uid lang) context
                              (persistentContexts s3)\<rparr>))))"

definition getOrCreatePersistentContext ::
  "(string \<Rightarrow> LanguageTier option) \<Rightarrow> 'w Runtime \<Rightarrow> string \<Rightarrow> string \<Rightarrow> 'w ServiceState
     \<Rightarrow> (string + PersistentExecutionContext) \<times> 'w ServiceState" where
  "getOrCreatePersistentContext tiers rt uid lang s =
     (case map_of (persistentContexts s) (contextKeyOf uid lang) of
        Some context \<Rightarrow>
          (case dockerExec rt (containerId context) aliveProbe s of
             (Inr r, s1) \<Rightarrow> (Inr context, s1)
           | (Inl e, s1) \<Rightarrow>
               createPersistentContext tiers rt uid lang
                 (s1\<lparr>persistentContexts :=
                      AList.delete (contextKeyOf uid lang) (persistentContexts s1)\<rparr>))
      | None \<Rightarrow> createPersistentContext tiers rt uid lang s)"

subsection \<open>\<^verbatim>\<open>installPackages\<close>\<close>

text \<open>
  The context object is shared with the map and is mutated in place; the model returns the
  mutated context next to the result, also when the call throws. The loop runs over
  \<^verbatim>\<open>newPackages\<close>, which was computed once before it.
\<close>

fun installEach ::
  "'w Runtime \<Rightarrow> string list \<Rightarrow> string list \<Rightarrow> PersistentExecutionContext \<Rightarrow> 'w ServiceState
     \<Rightarrow> (string + unit) \<times> PersistentExecutionContext \<times> 'w ServiceState" where
  "installEach rt installPrefix [] context s = (Inr (), context, s)"
| "installEach rt installPrefix (packageName # rest) context s =
     (case dockerExec rt (containerId context)
             (joinWith '' '' (installPrefix @ [packageName])) s of
        (Inl e, s1) \<Rightarrow> (Inl (''Failed to install package: '' @ packageName), context, s1)
      | (Inr r, s1) \<Rightarrow>
          installEach rt installPrefix rest
            (context\<lparr>installedPackages := insert packageName (installedPackages context)\<rparr>) s1)"

definition installPackages ::
  "(string \<Rightarrow> LanguageTier option) \<Rightarrow> 'w Runtime \<Rightarrow> PersistentExecutionContext \<Rightarrow> string list
     \<Rightarrow> 'w ServiceState \<Rightarrow> (string + unit) \<times> PersistentExecutionContext \<times> 'w ServiceState" where
  "installPackages tiers rt context packages s =
     (case tiers (language context) of
        None \<Rightarrow>
          (Inl (''Package installation not supported for '' @ language context), context, s)
      | Some languageConfig \<Rightarrow>
          (case packageInstallCommand languageConfig of
             None \<Rightarrow>
               (Inl (''Package installation not supported for '' @ language context),
                context, s)
           | Some installPrefix \<Rightarrow>
               (let newPackages = filter (\<lambda>pkg. pkg \<notin> installedPackages context) packages
                in if length newPackages = 0 then (Inr (), context, s)
                   else installEach rt installPrefix newPackages context s)))"

subsection \<open>\<^verbatim>\<open>executeCodeInContext\<close> and its helpers\<close>

definition writeCodeToContainer ::
  "'w Runtime \<Rightarrow> string \<Rightarrow> string \<Rightarrow> string \<Rightarrow> 'w ServiceState
     \<Rightarrow> (string + unit) \<times> 'w ServiceState" where
  "writeCodeToContainer rt cid filePath code s =
     (let dirPath = pathDirname rt filePath in
      case dockerExec rt cid (''mkdir -p '' @ [dquote] @ dirPath @ [dquote]) s of
        (Inl e, s1) \<Rightarrow> (Inl e, s1)
      | (Inr r, s1) \<Rightarrow>
          (let escapedCode =
                 replaceAllChar squote [squote, dquote, squote, dquote, squote] code
           in case dockerExec rt cid
                     (''echo '' @ [squote] @ escapedCode @ [squote] @ '' > '' @ [dquote]
                        @ filePath @ [dquote]) s1 of
                (Inl e, s2) \<Rightarrow> (Inl e, s2)
              | (Inr r2, s2) \<Rightarrow> (Inr (), s2)))"

definition getCreatedFiles ::
  "'w Runtime \<Rightarrow> string \<Rightarrow> string \<Rightarrow> 'w ServiceState \<Rightarrow> string list \<times> 'w ServiceState" where
  "getCreatedFiles rt cid wdir s =
     (case dockerExec rt cid
             (''find '' @ [dquote] @ wdir @ [dquote] @ '' -type f 2>/dev/null || echo ''
                @ [dquote, dquote]) s of
        (Inl e, s1) \<Rightarrow> ([], s1)
      | (Inr result, s1) \<Rightarrow>
          (if cmdOutput result \<noteq> []
           then (map (\<lambda>line. pathBasename rt (trim line))
                   (filter (\<lambda>line. trim line \<noteq> []) (splitLines (cmdOutput result))), s1)
           else ([], s1)))"

text \<open>
  The object literal \<^verbatim>\<open>extensions\<close> of \<^verbatim>\<open>generateFileName\<close>, by its own properties; as
  for \<^verbatim>\<open>languageTiers\<close>, an inherited name used as a language is outside what is modelled.
\<close>

definition extensions :: "(string \<times> string) list" where
  "extensions =
     [(''python'', ''py''), (''javascript'', ''js''), (''java'', ''java''), (''cpp'', ''cpp''),
      (''go'', ''go''), (''rust'', ''rs''), (''php'', ''php''), (''ruby'', ''rb'')]"

definition generateFileName :: "'w Runtime \<Rightarrow> string \<Rightarrow> 'w \<Rightarrow> string" where
  "generateFileName rt lang w =
     (let ext = (case map_of extensions (toLowerCase lang) of
                   Some e \<Rightarrow> e
                 | None \<Rightarrow> ''txt'')
      in ''code_'' @ showNat (dateNow rt w) @ ''.'' @ ext)"

definition executeCodeInContext ::
  "(string \<Rightarrow> LanguageTier option) \<Rightarrow> 'w Runtime \<Rightarrow> PersistentExecutionContext
     \<Rightarrow> SessionFreeExecutionRequest \<Rightarrow> 'w ServiceState
     \<Rightarrow> (string + ExecutionOutcome) \<times> 'w ServiceState" where
  "executeCodeInContext tiers rt context request s =
     (case tiers (language context) of
        None \<Rightarrow> (Inl (''Language configuration not found: '' @ language context), s)
      | Some languageConfig \<Rightarrow>
          (let fileName = (if truthy (reqFileName request)
                           then (case reqFileName request of Some f \<Rightarrow> f | None \<Rightarrow> [])
                           else generateFileName rt (language context) (world s));
               fullPath = pathJoin rt (workingDir context) fileName
           in case writeCodeToContainer rt (containerId context) fullPath (reqCode request) s of
                (Inl e, s1) \<Rightarrow> (Inl e, s1)
              | (Inr u, s1) \<Rightarrow>
                  (let executeCommands = executeCommand languageConfig fileName;
                       finalCommand =
                         (case reqInput request of
                            None \<Rightarrow> joinWith '' '' executeCommands
                          | Some inp \<Rightarrow>
                              if inp \<noteq> []
                              then ''echo '' @ [dquote]
                                     @ replaceAllChar dquote [backslash, dquote] inp
                                     @ [dquote] @ '' | '' @ joinWith '' '' executeCommands
                              else joinWith '' '' executeCommands);
                       fullCommand = ''cd '' @ [dquote] @ workingDir context @ [dquote]
                                       @ '' && '' @ finalCommand
                   in case dockerExec rt (containerId context) fullCommand s1 of
                        (Inl e, s2) \<Rightarrow> (Inl e, s2)
                      | (Inr result, s2) \<Rightarrow>
                          (case getCreatedFiles rt (containerId context)
                                  (workingDir context) s2 of
                             (createdFiles, s3) \<Rightarrow>
                               (Inr \<lparr>resultOutput = cmdOutput result,
                                     resultError = cmdError result,
                                     exitCode = 0,
                                     files = Some createdFiles\<rparr>, s3)))))"

subsection \<open>\<^verbatim>\<open>executeCode\<close>\<close>

text \<open>
  The context returned by \<^verbatim>\<open>getOrCreatePersistentContext\<close> is the object stored in the
  map under the context key, so a mutation of it is a mutation of that entry.
\<close>

definition mutateContext ::
  "string \<Rightarrow> PersistentExecutionContext \<Rightarrow> 'w ServiceState \<Rightarrow> 'w ServiceState" where
  "mutateContext key context s =
     s\<lparr>persistentContexts := AList.map_entry key (\<lambda>old. context) (persistentContexts s)\<rparr>"

text \<open>The \<^verbatim>\<open>catch\<close> branch of \<^verbatim>\<open>executeCode\<close>.\<close>

definition executionFailed ::
  "'w Runtime \<Rightarrow> nat \<Rightarrow> string \<Rightarrow> 'w ServiceState
     \<Rightarrow> SessionFreeExecutionResult \<times> 'w ServiceState" where
  "executionFailed rt startTime message s =
     (\<lparr>resultOutput = [], resultError = ''Execution failed: '' @ message, exitCode = 1,
       files = None, executionTime = int (dateNow rt (world s)) - int startTime,
       resultContextId = ''error''\<rparr>, s)"

definition executeCode ::
  "(string \<Rightarrow> LanguageTier option) \<Rightarrow> 'w Runtime \<Rightarrow> SessionFreeExecutionRequest
     \<Rightarrow> 'w ServiceState \<Rightarrow> SessionFreeExecutionResult \<times> 'w ServiceState" where
  "executeCode tiers rt request s =
     (let startTime = dateNow rt (world s);
          uid = (if truthy (reqUserId request)
                 then (case reqUserId request of Some u \<Rightarrow> u | None \<Rightarrow> [])
                 else ''anonymous'');
          key = contextKeyOf uid (reqLanguage request)
      in case getOrCreatePersistentContext tiers rt uid (reqLanguage request) s of
           (Inl e, s1) \<Rightarrow> executionFailed rt startTime e s1
         | (Inr context, s1) \<Rightarrow>
             (case (case reqPackages request of
                      None \<Rightarrow> (Inr (), context, s1)
                    | Some pkgs \<Rightarrow>
                        if length pkgs > 0 then installPackages tiers rt context pkgs s1
                        else (Inr (), context, s1)) of
                (Inl e, context2, s2) \<Rightarrow>
                  executionFailed rt startTime e (mutateContext key context2 s2)
              | (Inr u, context2, s2) \<Rightarrow>
                  (case executeCodeInContext tiers rt context2 request
                          (mutateContext key context2 s2) of
                     (Inl e, s3) \<Rightarrow> executionFailed rt startTime e s3
                   | (Inr result, s3) \<Rightarrow>
                       (let context3 = context2\<lparr>lastUsed := dateNow rt (world s3)\<rparr>;
                            s4 = mutateContext key context3 s3
                        in (\<lparr>resultOutput = resultOutput result,
                             resultError = resultError result,
                             exitCode = exitCode result,
                             files = files result,
                             executionTime = int (dateNow rt (world s4)) - int startTime,
                             resultContextId = contextId context3\<rparr>, s4)))))"

section \<open>Enhanced execution service: \<^verbatim>\<open>executeCodeInContainer\<close>\<close>

text \<open>
  The sibling of \<^verbatim>\<open>executeCodeInContext\<close> in \<^verbatim>\<open>EnhancedCodeExecutionService\<close>. It derives
  the exit code from the error text of the command result.
\<close>

definition executeCodeInContainer ::
  "(string \<Rightarrow> LanguageTier option) \<Rightarrow> 'w Runtime \<Rightarrow> string \<Rightarrow> string \<Rightarrow> string
     \<Rightarrow> string option \<Rightarrow> 'w ServiceState
     \<Rightarrow> (string + CodeExecutionResult) \<times> 'w ServiceState" where
  "executeCodeInContainer tiers rt cid lang fileName inp s =
     (case tiers lang of
        None \<Rightarrow> (Inl (''Language configuration not found: '' @ lang), s)
      | Some languageConfig \<Rightarrow>
          (let executeCmd = joinWith '' '' (executeCommand languageConfig fileName);
               fullCommand =
                 (if truthy inp
                  then ''echo '' @ [squote] @ (case inp of Some i \<Rightarrow> i | None \<Rightarrow> [])
                         @ [squote] @ '' | '' @ executeCmd
                  else executeCmd)
           in case dockerExec rt cid fullCommand s of
                (Inl e, s1) \<Rightarrow> (Inl e, s1)
              | (Inr result, s1) \<Rightarrow>
                  (Inr \<lparr>resultOutput = cmdOutput result,
                        resultError = cmdError result,
                        exitCode = (if cmdError result \<noteq> [] then 1 else 0),
                        files = None,
                        executionTime = cmdExecutionTime result\<rparr>, s1)))"

section \<open>Notions and examples for the execution service\<close>


text \<open>
  A runtime for worked examples. The world is the clock and stands still; a container is
  created and destroyed without error; \<open>answer\<close> says what a command returns or throws.
\<close>

definition exampleRuntime :: "(string \<Rightarrow> string \<Rightarrow> string + CommandResult) \<Rightarrow> nat Runtime" where
  "exampleRuntime answer = \<lparr>
     dockerExecuteCommand = (\<lambda>cid command w. (answer cid command, w)),
     createDynamicContainer = (\<lambda>cfg w. (Inr (''container-'' @ cfgLanguage cfg), w)),
     destroyContainer = (\<lambda>cid w. (Inr (), w)),
     dateNow = (\<lambda>w. w),
     pathJoin = (\<lambda>a b. a @ ''/'' @ b),
     pathDirname = (\<lambda>p. rev (drop 1 (dropWhile (\<lambda>c. c \<noteq> CHR ''/'') (rev p)))),
     pathBasename = (\<lambda>p. rev (takeWhile (\<lambda>c. c \<noteq> CHR ''/'') (rev p))) \<rparr>"

definition silent :: CommandResult where
  "silent = \<lparr>cmdOutput = [], cmdError = [], cmdExecutionTime = 0\<rparr>"

text \<open>Every command succeeds and prints nothing.\<close>

definition steadyRuntime :: "nat Runtime" where
  "steadyRuntime = exampleRuntime (\<lambda>cid command. Inr silent)"

definition aliceContext :: "string \<Rightarrow> nat \<Rightarrow> PersistentExecutionContext" where
  "aliceContext lang t = \<lparr>
     contextId = ''alice-'' @ lang @ ''-'' @ showNat t,
     containerId = ''container-'' @ lang,
     language = lang,
     workingDir = ''/app/workspace/alice-'' @ lang @ ''-'' @ showNat t,
     installedPackages = {},
     userId = ''alice'',
     lastUsed = t,
     createdAt = t \<rparr>"

text \<open>No context yet, at time 1000.\<close>

definition noContexts :: "nat ServiceState" where
  "noContexts = \<lparr>persistentContexts = [], world = 1000, dockerCalls = []\<rparr>"

text \<open>
  Alice holds a context for each of the five languages of the table; the JavaScript one
  was used longest ago.
\<close>

definition aliceAtLimit :: "nat ServiceState" where
  "aliceAtLimit = \<lparr>
     persistentContexts =
       [(''alice:python'', aliceContext ''python'' 300),
        (''alice:javascript'', aliceContext ''javascript'' 100),
        (''alice:go'', aliceContext ''go'' 500),
        (''alice:cpp'', aliceContext ''cpp'' 200),
        (''alice:java'', aliceContext ''java'' 400)],
     world = 1000, dockerCalls = []\<rparr>"



text \<open>The install command of one package: the profile's prefix and the name, joined.\<close>

definition installCommandOf :: "string list \<Rightarrow> string \<Rightarrow> string" where
  "installCommandOf installPrefix packageName = joinWith '' '' (installPrefix @ [packageName])"

text \<open>
  How many of the commands, issued to container \<open>cid\<close> in this order from the world \<open>w\<close>,
  the container layer resolves before it rejects one. A command that resolves counts,
  whatever its result says: the service looks at nothing but whether
  \<^verbatim>\<open>executeCommand\<close> throws.
\<close>

fun leadingSuccesses :: "'w Runtime \<Rightarrow> string \<Rightarrow> string list \<Rightarrow> 'w \<Rightarrow> nat" where
  "leadingSuccesses rt cid [] w = 0"
| "leadingSuccesses rt cid (command # commands) w =
     (case dockerExecuteCommand rt cid command w of
        (Inl e, w') \<Rightarrow> 0
      | (Inr r, w') \<Rightarrow> Suc (leadingSuccesses rt cid commands w'))"

text \<open>Alice has one context, for Python, with \<^verbatim>\<open>requests\<close> installed.\<close>

definition alicePython :: PersistentExecutionContext where
  "alicePython = (aliceContext ''python'' 300)\<lparr>installedPackages := {''requests''}\<rparr>"

definition aliceWithPython :: "nat ServiceState" where
  "aliceWithPython = \<lparr>persistentContexts = [(''alice:python'', alicePython)],
     world = 1000, dockerCalls = []\<rparr>"

text \<open>
  A runtime in which the package index does not know \<^verbatim>\<open>nonexistent-pkg-xyz\<close>: the
  install command for it is rejected, every other command succeeds.
\<close>

definition unknownPackageRuntime :: "nat Runtime" where
  "unknownPackageRuntime = exampleRuntime (\<lambda>cid command.
     if command = ''pip install --no-cache-dir nonexistent-pkg-xyz''
     then Inl ''No matching distribution found for nonexistent-pkg-xyz''
     else Inr silent)"

text \<open>
  A runtime in which the submitted program fails: a command that ends with
  \<^verbatim>\<open>python -u main.py\<close> comes back with the interpreter's error text, as it does for a
  Python program that raises an uncaught exception.
\<close>

definition failingProgramRuntime :: "nat Runtime" where
  "failingProgramRuntime = exampleRuntime (\<lambda>cid command.
     if drop (length command - 17) command = ''python -u main.py''
     then Inr \<lparr>cmdOutput = [], cmdError = ''ZeroDivisionError'', cmdExecutionTime = 12\<rparr>
     else Inr silent)"

definition raiseRequest :: SessionFreeExecutionRequest where
  "raiseRequest = \<lparr>reqCode = ''raise ZeroDivisionError'', reqLanguage = ''python'',
     reqFileName = Some ''main.py'', reqInput = None, reqPackages = None,
     reqUserId = Some ''alice'', reqTimeout = None\<rparr>"

text \<open>A request that asks for a package the index does not know.\<close>

definition installRequest :: SessionFreeExecutionRequest where
  "installRequest = \<lparr>reqCode = ''print(1)'', reqLanguage = ''python'',
     reqFileName = Some ''main.py'', reqInput = None,
     reqPackages = Some [''nonexistent-pkg-xyz''],
     reqUserId = Some ''alice'', reqTimeout = None\<rparr>"

text \<open>A request for a language that has no profile.\<close>

definition rubyRequest :: SessionFreeExecutionRequest where
  "rubyRequest = \<lparr>reqCode = ''puts 1'', reqLanguage = ''ruby'',
     reqFileName = None, reqInput = None, reqPackages = None,
     reqUserId = Some ''alice'', reqTimeout = None\<rparr>"

section \<open>Shared terminal service: sessions, rooms and the two sweeps\<close>

text \<open>
  The Docker client, the exec streams and the clock of \<^verbatim>\<open>SharedTerminalService\<close> are
  parameters, as above. A container object is named by its id, an exec instance and a
  stream by a handle.
\<close>

record 'w TerminalRuntime =
  containerStop :: "string \<Rightarrow> nat \<Rightarrow> 'w \<Rightarrow> (string + unit) \<times> 'w"
  containerRemove :: "string \<Rightarrow> bool \<Rightarrow> 'w \<Rightarrow> (string + unit) \<times> 'w"
  containerExec :: "string \<Rightarrow> 'w \<Rightarrow> (string + nat) \<times> 'w"
  execStart :: "nat \<Rightarrow> 'w \<Rightarrow> (string + nat) \<times> 'w"
  streamWritable :: "nat \<Rightarrow> 'w \<Rightarrow> bool"
  streamWrite :: "nat \<Rightarrow> string \<Rightarrow> 'w \<Rightarrow> (string + unit) \<times> 'w"
  streamEnd :: "nat \<Rightarrow> 'w \<Rightarrow> (string + unit) \<times> 'w"
  newDate :: "'w \<Rightarrow> int"

record ExecInstance =
  execHandle :: nat
  execStream :: "nat option"

record TerminalSession =
  sessionId :: string
  sessionContainerId :: string
  sessionRoomId :: string
  sessionUserId :: string
  execInstance :: "ExecInstance option"
  isActive :: bool
  startTime :: int

text \<open>
  The values of \<^verbatim>\<open>activeSessions\<close> are the session objects also held in
  \<^verbatim>\<open>userSessions\<close>; the service only sets, deletes and counts the entries of
  \<^verbatim>\<open>activeSessions\<close> and never reads a value, so the map holds the session's id here.
\<close>

record RoomTerminal =
  roomId :: string
  roomContainerId :: string
  activeSessions :: "(string \<times> string) list"
  roomCreatedAt :: int
  lastActivity :: int

datatype TerminalCall =
    ContainerStop string nat
  | ContainerRemove string bool
  | ContainerExec string
  | ExecStart nat
  | StreamWrite nat string
  | StreamEnd nat
  | CreateSharedContainer string

record 'w TerminalState =
  roomTerminals :: "(string \<times> RoomTerminal) list"
  userSessions :: "(string \<times> TerminalSession) list"
  termWorld :: 'w
  termCalls :: "TerminalCall list"

definition callOutside ::
  "('w \<Rightarrow> (string + 'a) \<times> 'w) \<Rightarrow> TerminalCall \<Rightarrow> 'w TerminalState
     \<Rightarrow> (string + 'a) \<times> 'w TerminalState" where
  "callOutside f c s =
     (case f (termWorld s) of
        (r, w) \<Rightarrow> (r, s\<lparr>termWorld := w, termCalls := termCalls s @ [c]\<rparr>))"

subsection \<open>\<^verbatim>\<open>handleDisconnect\<close>\<close>

definition endStream :: "'w TerminalRuntime \<Rightarrow> TerminalSession \<Rightarrow> 'w TerminalState \<Rightarrow> 'w TerminalState" where
  "endStream rt session s =
     (case execInstance session of
        None \<Rightarrow> s
      | Some inst \<Rightarrow>
          (case execStream inst of
             None \<Rightarrow> s
           | Some st \<Rightarrow> snd (callOutside (streamEnd rt st) (StreamEnd st) s)))"

definition handleDisconnect :: "'w TerminalRuntime \<Rightarrow> string \<Rightarrow> 'w TerminalState \<Rightarrow> 'w TerminalState" where
  "handleDisconnect rt socketId s =
     (case map_of (userSessions s) socketId of
        None \<Rightarrow> s
      | Some session \<Rightarrow>
          (let s1 = endStream rt session s;
               s2 = s1\<lparr>roomTerminals :=
                      AList.map_entry (sessionRoomId session)
                        (\<lambda>room. room\<lparr>activeSessions := AList.delete socketId (activeSessions room)\<rparr>)
                        (roomTerminals s1)\<rparr>
           in s2\<lparr>userSessions := AList.delete socketId (userSessions s2)\<rparr>))"

subsection \<open>\<^verbatim>\<open>cleanupInactiveSessions\<close>\<close>

definition maxInactiveTime :: int where
  "maxInactiveTime = 30 * 60 * 1000"

text \<open>
  The loop over \<^verbatim>\<open>userSessions.entries()\<close>. An iteration deletes at most the entry it is
  at, so the loop visits the entries the map had when it started.
\<close>

fun disconnectOld ::
  "'w TerminalRuntime \<Rightarrow> int \<Rightarrow> (string \<times> TerminalSession) list \<Rightarrow> 'w TerminalState
     \<Rightarrow> 'w TerminalState" where
  "disconnectOld rt now [] s = s"
| "disconnectOld rt now ((socketId, session) # rest) s =
     (let inactiveTime = now - startTime session
      in if inactiveTime > maxInactiveTime
         then disconnectOld rt now rest (handleDisconnect rt socketId s)
         else disconnectOld rt now rest s)"

definition cleanupInactiveSessions :: "'w TerminalRuntime \<Rightarrow> 'w TerminalState \<Rightarrow> 'w TerminalState" where
  "cleanupInactiveSessions rt s =
     disconnectOld rt (newDate rt (termWorld s)) (userSessions s) s"

subsection \<open>The \<^verbatim>\<open>terminal-input\<close> handler\<close>

definition storeSession :: "string \<Rightarrow> TerminalSession \<Rightarrow> 'w TerminalState \<Rightarrow> 'w TerminalState" where
  "storeSession socketId session s =
     s\<lparr>userSessions := AList.map_entry socketId (\<lambda>old. session) (userSessions s)\<rparr>"

text \<open>
  The first input of a session opens the exec instance and its stream. The session object
  gets \<^verbatim>\<open>execInstance\<close> as soon as \<^verbatim>\<open>container.exec\<close> has answered, and the stream once
  \<^verbatim>\<open>start\<close> has; a failure of either leaves the handler through its \<^verbatim>\<open>catch\<close>.
\<close>

definition openExec ::
  "'w TerminalRuntime \<Rightarrow> string \<Rightarrow> TerminalSession \<Rightarrow> 'w TerminalState
     \<Rightarrow> (string + TerminalSession) \<times> 'w TerminalState" where
  "openExec rt socketId session s =
     (case execInstance session of
        Some inst \<Rightarrow> (Inr session, s)
      | None \<Rightarrow>
          (case callOutside (containerExec rt (sessionContainerId session))
                  (ContainerExec (sessionContainerId session)) s of
             (Inl e, s1) \<Rightarrow> (Inl e, s1)
           | (Inr h, s1) \<Rightarrow>
               (let session1 = session\<lparr>execInstance := Some \<lparr>execHandle = h, execStream = None\<rparr>\<rparr>
                in case callOutside (execStart rt h) (ExecStart h)
                          (storeSession socketId session1 s1) of
                     (Inl e, s2) \<Rightarrow> (Inl e, s2)
                   | (Inr st, s2) \<Rightarrow>
                       (let session2 = session1\<lparr>execInstance :=
                              Some \<lparr>execHandle = h, execStream = Some st\<rparr>\<rparr>
                        in (Inr session2, storeSession socketId session2 s2)))))"

definition terminalInput ::
  "'w TerminalRuntime \<Rightarrow> string \<Rightarrow> string \<Rightarrow> 'w TerminalState \<Rightarrow> 'w TerminalState" where
  "terminalInput rt socketId inp s =
     (case map_of (userSessions s) socketId of
        None \<Rightarrow> s
      | Some session \<Rightarrow>
          if \<not> isActive session then s
          else (case openExec rt socketId session s of
                  (Inl e, s1) \<Rightarrow> s1
                | (Inr session1, s1) \<Rightarrow>
                    (case execInstance session1 of
                       None \<Rightarrow> s1
                     | Some inst \<Rightarrow>
                         (case execStream inst of
                            None \<Rightarrow> s1
                          | Some st \<Rightarrow>
                              if streamWritable rt st (termWorld s1)
                              then (case callOutside (streamWrite rt st inp) (StreamWrite st inp) s1 of
                                      (Inl e, s2) \<Rightarrow> s2
                                    | (Inr u, s2) \<Rightarrow>
                                        s2\<lparr>roomTerminals :=
                                             AList.map_entry (sessionRoomId session1)
                                               (\<lambda>room. room\<lparr>lastActivity := newDate rt (termWorld s2)\<rparr>)
                                               (roomTerminals s2)\<rparr>)
                              else s1))))"

text \<open>A run of inputs, each from some socket.\<close>

fun terminalInputs ::
  "'w TerminalRuntime \<Rightarrow> (string \<times> string) list \<Rightarrow> 'w TerminalState \<Rightarrow> 'w TerminalState" where
  "terminalInputs rt [] s = s"
| "terminalInputs rt ((socketId, inp) # later) s =
     terminalInputs rt later (terminalInput rt socketId inp s)"

subsection \<open>The \<^verbatim>\<open>join-room-terminal\<close> handler\<close>

text \<open>
  The membership store, the creation of a room's container and the id generator are
  parameters as well. \<^verbatim>\<open>createSharedContainer\<close> touches no state of the service: it
  creates, starts and provisions a container through the Docker client and returns it or
  throws, and is one call of the runtime here.
\<close>

record 'w JoinRuntime =
  getRoomUsers :: "string \<Rightarrow> 'w \<Rightarrow> (string + string list) \<times> 'w"
  createSharedContainer :: "string \<Rightarrow> 'w \<Rightarrow> (string + string) \<times> 'w"
  updateRoomContainer :: "string \<Rightarrow> string \<Rightarrow> 'w \<Rightarrow> (string + unit) \<times> 'w"
  uuidv4 :: "'w \<Rightarrow> string \<times> 'w"

text \<open>\<^verbatim>\<open>verifyRoomAccess\<close>: a failing lookup counts as no access.\<close>

definition verifyRoomAccess ::
  "'w JoinRuntime \<Rightarrow> string \<Rightarrow> string \<Rightarrow> 'w TerminalState \<Rightarrow> bool \<times> 'w TerminalState" where
  "verifyRoomAccess jr rid uid s =
     (case getRoomUsers jr rid (termWorld s) of
        (Inl e, w) \<Rightarrow> (False, s\<lparr>termWorld := w\<rparr>)
      | (Inr roomUsers, w) \<Rightarrow> (uid \<in> set roomUsers, s\<lparr>termWorld := w\<rparr>))"

text \<open>
  \<^verbatim>\<open>getOrCreateRoomTerminal\<close>: a registered room is returned as it is. Otherwise the
  container is created and the new room registered; a failure of the database update after
  that leaves the room registered and the handler through its \<^verbatim>\<open>catch\<close>.
\<close>

definition getOrCreateRoomTerminal ::
  "'w TerminalRuntime \<Rightarrow> 'w JoinRuntime \<Rightarrow> string \<Rightarrow> 'w TerminalState
     \<Rightarrow> (string + RoomTerminal) \<times> 'w TerminalState" where
  "getOrCreateRoomTerminal rt jr rid s =
     (case map_of (roomTerminals s) rid of
        Some roomTerminal \<Rightarrow> (Inr roomTerminal, s)
      | None \<Rightarrow>
          (case callOutside (createSharedContainer jr rid) (CreateSharedContainer rid) s of
             (Inl e, s1) \<Rightarrow> (Inl e, s1)
           | (Inr cid, s1) \<Rightarrow>
               if cid = []
               then (Inl ''Failed to create container: container ID is undefined'', s1)
               else (let roomTerminal = \<lparr>roomId = rid, roomContainerId = cid,
                           activeSessions = [], roomCreatedAt = newDate rt (termWorld s1),
                           lastActivity = newDate rt (termWorld s1)\<rparr>;
                         s2 = s1\<lparr>roomTerminals :=
                                  AList.update rid roomTerminal (roomTerminals s1)\<rparr>
                     in case updateRoomContainer jr rid cid (termWorld s2) of
                          (Inl e, w) \<Rightarrow> (Inl e, s2\<lparr>termWorld := w\<rparr>)
                        | (Inr u, w) \<Rightarrow> (Inr roomTerminal, s2\<lparr>termWorld := w\<rparr>))))"

text \<open>
  \<^verbatim>\<open>createTerminalSession\<close>: the new session copies the room's container, and is entered
  in the room's \<^verbatim>\<open>activeSessions\<close>. The room object is the one registered under \<open>rid\<close>.
\<close>

definition createTerminalSession ::
  "'w TerminalRuntime \<Rightarrow> 'w JoinRuntime \<Rightarrow> string \<Rightarrow> RoomTerminal \<Rightarrow> string \<Rightarrow> string
     \<Rightarrow> 'w TerminalState \<Rightarrow> TerminalSession \<times> 'w TerminalState" where
  "createTerminalSession rt jr rid roomTerminal uid socketId s =
     (case uuidv4 jr (termWorld s) of
        (newId, w) \<Rightarrow>
          (let session = \<lparr>sessionId = newId,
                 sessionContainerId = roomContainerId roomTerminal,
                 sessionRoomId = roomId roomTerminal, sessionUserId = uid,
                 execInstance = None, isActive = True, startTime = newDate rt w\<rparr>
           in (session,
               s\<lparr>termWorld := w,
                 roomTerminals :=
                   AList.map_entry rid
                     (\<lambda>room. room\<lparr>activeSessions :=
                        AList.update socketId newId (activeSessions room)\<rparr>)
                     (roomTerminals s)\<rparr>)))"

definition joinRoomTerminal ::
  "'w TerminalRuntime \<Rightarrow> 'w JoinRuntime \<Rightarrow> string \<Rightarrow> string \<Rightarrow> string
     \<Rightarrow> 'w TerminalState \<Rightarrow> 'w TerminalState" where
  "joinRoomTerminal rt jr socketId rid uid s =
     (if rid = [] \<or> uid = [] then s
      else (case verifyRoomAccess jr rid uid s of
              (hasAccess, s1) \<Rightarrow>
                if \<not> hasAccess then s1
                else (case getOrCreateRoomTerminal rt jr rid s1 of
                        (Inl e, s2) \<Rightarrow> s2
                      | (Inr roomTerminal, s2) \<Rightarrow>
                          (case createTerminalSession rt jr rid roomTerminal uid socketId s2 of
                             (session, s3) \<Rightarrow>
                               s3\<lparr>userSessions :=
                                    AList.update socketId session (userSessions s3)\<rparr>))))"

subsection \<open>Handlers that run while the sweep waits\<close>

text \<open>
  \<^verbatim>\<open>cleanupUnusedRoomTerminals\<close> is asynchronous: while it awaits \<^verbatim>\<open>container.stop\<close> or
  \<^verbatim>\<open>container.remove\<close>, the handlers of the sockets go on running. An event is one run of
  a handler; a schedule gives, for each await of the sweep in turn, the events that run
  while that await is pending (none once the schedule is used up).
\<close>

datatype TerminalEvent =
    JoinRoomTerminal string string string
  | TerminalInput string string
  | Disconnect string

fun handleEvent ::
  "'w TerminalRuntime \<Rightarrow> 'w JoinRuntime \<Rightarrow> TerminalEvent \<Rightarrow> 'w TerminalState
     \<Rightarrow> 'w TerminalState" where
  "handleEvent rt jr (JoinRoomTerminal socketId rid uid) s = joinRoomTerminal rt jr socketId rid uid s"
| "handleEvent rt jr (TerminalInput socketId inp) s = terminalInput rt socketId inp s"
| "handleEvent rt jr (Disconnect socketId) s = handleDisconnect rt socketId s"

fun runEvents ::
  "'w TerminalRuntime \<Rightarrow> 'w JoinRuntime \<Rightarrow> TerminalEvent list \<Rightarrow> 'w TerminalState
     \<Rightarrow> 'w TerminalState" where
  "runEvents rt jr [] s = s"
| "runEvents rt jr (ev # evs) s = runEvents rt jr evs (handleEvent rt jr ev s)"

text \<open>An awaited call of the sweep: the call is issued, the scheduled events run, the sweep resumes.\<close>

definition awaitOutside ::
  "'w TerminalRuntime \<Rightarrow> 'w JoinRuntime \<Rightarrow> ('w \<Rightarrow> (string + 'a) \<times> 'w) \<Rightarrow> TerminalCall
     \<Rightarrow> TerminalEvent list list \<Rightarrow> 'w TerminalState
     \<Rightarrow> (string + 'a) \<times> TerminalEvent list list \<times> 'w TerminalState" where
  "awaitOutside rt jr f c schedule s =
     (case callOutside f c s of
        (r, s1) \<Rightarrow>
          (case schedule of
             [] \<Rightarrow> (r, [], s1)
           | evs # later \<Rightarrow> (r, later, runEvents rt jr evs s1)))"

subsection \<open>\<^verbatim>\<open>cleanupUnusedRoomTerminals\<close>\<close>

definition maxUnusedTime :: int where
  "maxUnusedTime = 60 * 60 * 1000"

text \<open>
  A handler run adds at most one room to the registry and removes none, and it leaves the
  rooms that are there at their places. The loop of the sweep ends for that reason; the
  facts are needed where the loop is defined.
\<close>

lemma keys_map_entry: "map fst (AList.map_entry k f xs) = map fst xs"
  by (induction xs) auto

lemma keys_update:
  "\<exists>extra. map fst (AList.update k v xs) = map fst xs @ extra \<and> length extra \<le> 1"
  by (induction xs) auto

lemma callOutside_rooms:
  "callOutside f c s = (r, s1) \<Longrightarrow> roomTerminals s1 = roomTerminals s"
  by (auto simp: callOutside_def split: prod.splits)

lemma terminalInput_keys:
  "map fst (roomTerminals (terminalInput rt socketId inp s)) = map fst (roomTerminals s)"
  by (auto simp: terminalInput_def openExec_def storeSession_def keys_map_entry Let_def
      split: option.splits sum.splits prod.splits dest!: callOutside_rooms)

lemma handleDisconnect_keys:
  "map fst (roomTerminals (handleDisconnect rt socketId s)) = map fst (roomTerminals s)"
  by (auto simp: handleDisconnect_def endStream_def callOutside_def keys_map_entry Let_def
      split: option.splits prod.splits)

lemma getOrCreateRoomTerminal_keys:
  "getOrCreateRoomTerminal rt jr rid s = (r, s1) \<Longrightarrow>
     \<exists>extra. map fst (roomTerminals s1) = map fst (roomTerminals s) @ extra \<and> length extra \<le> 1"
  using keys_update [of rid _ "roomTerminals s"]
  by (auto simp: getOrCreateRoomTerminal_def Let_def
      split: option.splits sum.splits prod.splits if_splits dest!: callOutside_rooms)

lemma joinRoomTerminal_keys:
  "\<exists>extra. map fst (roomTerminals (joinRoomTerminal rt jr socketId rid uid s))
       = map fst (roomTerminals s) @ extra \<and> length extra \<le> 1"
proof (cases "rid = [] \<or> uid = []")
  case True
  then show ?thesis by (simp add: joinRoomTerminal_def)
next
  case False
  obtain a s1 where v: "verifyRoomAccess jr rid uid s = (a, s1)"
    by (cases "verifyRoomAccess jr rid uid s")
  then have r1: "roomTerminals s1 = roomTerminals s"
    by (auto simp: verifyRoomAccess_def split: prod.splits sum.splits)
  obtain g s2 where g: "getOrCreateRoomTerminal rt jr rid s1 = (g, s2)"
    by (cases "getOrCreateRoomTerminal rt jr rid s1")
  from getOrCreateRoomTerminal_keys [OF g] r1 obtain extra where
    e: "map fst (roomTerminals s2) = map fst (roomTerminals s) @ extra" "length extra \<le> 1"
    by auto
  show ?thesis
  proof (cases "a \<and> (\<exists>room. g = Inr room)")
    case True
    then obtain room where "g = Inr room" and a by blast
    with False v g e show ?thesis
      by (auto simp: joinRoomTerminal_def createTerminalSession_def keys_map_entry Let_def
          split: prod.splits)
  next
    case False
    with \<open>\<not> (rid = [] \<or> uid = [])\<close> v g r1 e show ?thesis
      by (cases g) (auto simp: joinRoomTerminal_def)
  qed
qed

lemma handleEvent_keys:
  "\<exists>extra. map fst (roomTerminals (handleEvent rt jr ev s))
       = map fst (roomTerminals s) @ extra \<and> length extra \<le> 1"
proof (cases ev)
  case (JoinRoomTerminal socketId rid uid)
  then show ?thesis using joinRoomTerminal_keys [of rt jr socketId rid uid s] by simp
next
  case (TerminalInput socketId inp)
  then show ?thesis by (simp add: terminalInput_keys)
next
  case (Disconnect socketId)
  then show ?thesis by (simp add: handleDisconnect_keys)
qed

lemma runEvents_keys:
  "\<exists>extra. map fst (roomTerminals (runEvents rt jr evs s))
       = map fst (roomTerminals s) @ extra \<and> length extra \<le> length evs"
proof (induction evs arbitrary: s)
  case Nil
  then show ?case by simp
next
  case (Cons ev evs)
  from handleEvent_keys [of rt jr ev s] obtain x where
    x: "map fst (roomTerminals (handleEvent rt jr ev s)) = map fst (roomTerminals s) @ x"
      "length x \<le> 1" by blast
  from Cons.IH [of "handleEvent rt jr ev s"] obtain y where
    y: "map fst (roomTerminals (runEvents rt jr evs (handleEvent rt jr ev s)))
          = map fst (roomTerminals (handleEvent rt jr ev s)) @ y" "length y \<le> length evs"
    by blast
  from x y have "map fst (roomTerminals (runEvents rt jr (ev # evs) s))
      = map fst (roomTerminals s) @ (x @ y) \<and> length (x @ y) \<le> length (ev # evs)"
    by simp
  then show ?case by blast
qed

lemma awaitOutside_keys:
  assumes "awaitOutside rt jr f c schedule s = (r, later, s1)"
  shows "\<exists>extra. map fst (roomTerminals s1) = map fst (roomTerminals s) @ extra
     \<and> length extra + length (concat later) \<le> length (concat schedule)"
proof -
  obtain r0 s0 where c: "callOutside f c s = (r0, s0)" by (cases "callOutside f c s")
  note r0 = callOutside_rooms [OF c]
  show ?thesis
  proof (cases schedule)
    case Nil
    with assms c r0 show ?thesis by (simp add: awaitOutside_def)
  next
    case (Cons evs rest)
    with assms c have "s1 = runEvents rt jr evs s0" "later = rest"
      by (simp_all add: awaitOutside_def)
    with runEvents_keys [of rt jr evs s0] r0 Cons show ?thesis by auto
  qed
qed

lemma awaitOutside_grows:
  assumes "awaitOutside rt jr f c schedule s = (r, later, s1)"
  shows "length (roomTerminals s) \<le> length (roomTerminals s1)
     \<and> length (roomTerminals s1) + length (concat later)
         \<le> length (roomTerminals s) + length (concat schedule)
     \<and> take (length (roomTerminals s)) (map fst (roomTerminals s1)) = map fst (roomTerminals s)"
proof -
  from awaitOutside_keys [OF assms] obtain extra where
    k: "map fst (roomTerminals s1) = map fst (roomTerminals s) @ extra"
    and e: "length extra + length (concat later) \<le> length (concat schedule)"
    by blast
  from k have "length (map fst (roomTerminals s1))
      = length (map fst (roomTerminals s)) + length extra"
    by (simp only: length_append)
  then have "length (roomTerminals s1) = length (roomTerminals s) + length extra"
    by simp
  with e k show ?thesis by simp
qed

lemma length_delete_less:
  "k \<in> set (map fst xs) \<Longrightarrow> length (AList.delete k xs) < length xs"
proof -
  assume "k \<in> set (map fst xs)"
  then obtain v where "(k, v) \<in> set xs" by auto
  then have "length (filter (\<lambda>(k', v'). k \<noteq> k') xs) < length xs"
    by (intro length_filter_less [of "(k, v)"]) simp_all
  then show ?thesis by (simp add: AList.delete_eq)
qed

text \<open>
  The loop over \<^verbatim>\<open>roomTerminals.entries()\<close>. The iterator of a \<^verbatim>\<open>Map\<close> is live: the loop
  reads the entry at its position \<open>i\<close> from the map as it is at that moment, and rooms
  registered while the sweep waits are visited too. The idle time and the number of
  active sessions are tested once, before \<^verbatim>\<open>stop\<close>; nothing is tested again after the
  awaits. A failing \<^verbatim>\<open>stop\<close> or \<^verbatim>\<open>remove\<close> is logged and leaves the room registered.
  Only the sweep deletes rooms, so after its \<^verbatim>\<open>delete\<close> the next entry is at the same
  position.
\<close>

function removeUnusedFrom ::
  "'w TerminalRuntime \<Rightarrow> 'w JoinRuntime \<Rightarrow> int \<Rightarrow> nat \<Rightarrow> TerminalEvent list list
     \<Rightarrow> 'w TerminalState \<Rightarrow> 'w TerminalState" where
  "removeUnusedFrom rt jr now i schedule s =
     (if i < length (roomTerminals s)
      then (case roomTerminals s ! i of
              (rid, roomTerminal) \<Rightarrow>
                (let unusedTime = now - lastActivity roomTerminal
                 in if unusedTime > maxUnusedTime \<and> length (activeSessions roomTerminal) = 0
                    then (case awaitOutside rt jr
                                 (containerStop rt (roomContainerId roomTerminal) 10)
                                 (ContainerStop (roomContainerId roomTerminal) 10) schedule s of
                            (Inl e, later, s1) \<Rightarrow> removeUnusedFrom rt jr now (Suc i) later s1
                          | (Inr u, later, s1) \<Rightarrow>
                              (case awaitOutside rt jr
                                      (containerRemove rt (roomContainerId roomTerminal) True)
                                      (ContainerRemove (roomContainerId roomTerminal) True)
                                      later s1 of
                                 (Inl e, later2, s2) \<Rightarrow>
                                   removeUnusedFrom rt jr now (Suc i) later2 s2
                               | (Inr u2, later2, s2) \<Rightarrow>
                                   removeUnusedFrom rt jr now i later2
                                     (s2\<lparr>roomTerminals :=
                                          AList.delete rid (roomTerminals s2)\<rparr>)))
                    else removeUnusedFrom rt jr now (Suc i) schedule s))
      else s)"
  by pat_completeness auto
termination
proof (relation "measure (\<lambda>(rt, jr, now, i, schedule, s).
    length (roomTerminals s) - i + length (concat schedule))", goal_cases)
  case 1
  show ?case by simp
next
  case (2 rt jr now i schedule s x y xa xaa ya a xb yb)
  then have "awaitOutside rt jr (containerStop rt (roomContainerId y) 10)
      (ContainerStop (roomContainerId y) 10) schedule s = (Inl a, xb, yb)"
    by simp
  from awaitOutside_grows [OF this] 2(1) show ?case by simp linarith
next
  case (3 rt jr now i schedule s x y xa xaa ya b xab yb xac yaa a xb yc)
  then have "awaitOutside rt jr (containerStop rt (roomContainerId y) 10)
      (ContainerStop (roomContainerId y) 10) schedule s = (Inr b, xab, yb)"
    and "awaitOutside rt jr (containerRemove rt (roomContainerId y) True)
      (ContainerRemove (roomContainerId y) True) xab yb = (Inl a, xb, yc)"
    by simp_all
  from awaitOutside_grows [OF this(1)] awaitOutside_grows [OF this(2)] 3(1)
  show ?case by simp linarith
next
  case (4 rt jr now i schedule s x y xa xaa ya b xab yb xac yaa ba xad yc)
  then have a1: "awaitOutside rt jr (containerStop rt (roomContainerId y) 10)
      (ContainerStop (roomContainerId y) 10) schedule s = (Inr b, xab, yb)"
    and a2: "awaitOutside rt jr (containerRemove rt (roomContainerId y) True)
      (ContainerRemove (roomContainerId y) True) xab yb = (Inr ba, xad, yc)"
    by simp_all
  note g1 = awaitOutside_grows [OF a1] and g2 = awaitOutside_grows [OF a2]
  from 4(1,2) have "x = map fst (roomTerminals s) ! i"
    by (metis fst_conv nth_map)
  also from g1 4(1) have "\<dots> = map fst (roomTerminals yb) ! i"
    by (metis length_map nth_take)
  also from g1 g2 4(1) have "\<dots> = map fst (roomTerminals yc) ! i"
    by (metis (no_types, lifting) length_map nth_take order_less_le_trans)
  finally have "x \<in> set (map fst (roomTerminals yc))"
    using g1 g2 4(1) by (metis length_map nth_mem order_less_le_trans)
  then have "length (AList.delete x (roomTerminals yc)) < length (roomTerminals yc)"
    by (rule length_delete_less)
  with g1 g2 4(1) show ?case by simp linarith
next
  case (5 rt jr now i schedule s x y xa)
  then show ?case by simp
qed

declare removeUnusedFrom.simps [simp del]

definition cleanupUnusedRoomTerminals ::
  "'w TerminalRuntime \<Rightarrow> 'w JoinRuntime \<Rightarrow> TerminalEvent list list \<Rightarrow> 'w TerminalState
     \<Rightarrow> 'w TerminalState" where
  "cleanupUnusedRoomTerminals rt jr schedule s =
     removeUnusedFrom rt jr (newDate rt (termWorld s)) 0 schedule s"

subsection \<open>Notions used to state the properties of the sweeps\<close>

text \<open>Socket \<open>k\<close> is not among the active sessions of room \<open>rid\<close>, if that room exists.\<close>

definition notInRoom :: "string \<Rightarrow> string \<Rightarrow> 'w TerminalState \<Rightarrow> bool" where
  "notInRoom rid k s \<longleftrightarrow>
     (\<forall>room. map_of (roomTerminals s) rid = Some room \<longrightarrow> map_of (activeSessions room) k = None)"

text \<open>
  From \<open>s\<close> to \<open>s'\<close> the sockets with a session are the same, and every session has kept
  its start time and its room.
\<close>

definition agesKept :: "'w TerminalState \<Rightarrow> 'w TerminalState \<Rightarrow> bool" where
  "agesKept s s' \<longleftrightarrow>
     map fst (userSessions s') = map fst (userSessions s)
     \<and> (\<forall>k session. map_of (userSessions s) k = Some session \<longrightarrow>
          (\<exists>session'. map_of (userSessions s') k = Some session'
             \<and> startTime session' = startTime session
             \<and> sessionRoomId session' = sessionRoomId session))"

text \<open>
  A runtime for worked examples: the world is the clock, every call succeeds, and a write
  to a stream takes ten minutes.
\<close>

definition steadyTerminalRuntime :: "int TerminalRuntime" where
  "steadyTerminalRuntime = \<lparr>
     containerStop = (\<lambda>cid t w. (Inr (), w)),
     containerRemove = (\<lambda>cid force w. (Inr (), w)),
     containerExec = (\<lambda>cid w. (Inr 1, w)),
     execStart = (\<lambda>h w. (Inr 2, w)),
     streamWritable = (\<lambda>st w. True),
     streamWrite = (\<lambda>st inp w. (Inr (), w + 600000)),
     streamEnd = (\<lambda>st w. (Inr (), w)),
     newDate = (\<lambda>w. w) \<rparr>"

definition busyRoom :: RoomTerminal where
  "busyRoom = \<lparr>roomId = ''room-a'', roomContainerId = ''container-a'',
     activeSessions = [(''socket-1'', ''session-1'')], roomCreatedAt = 0, lastActivity = 0\<rparr>"

definition emptyRoom :: RoomTerminal where
  "emptyRoom = \<lparr>roomId = ''room-b'', roomContainerId = ''container-b'',
     activeSessions = [], roomCreatedAt = 0, lastActivity = 0\<rparr>"

definition firstSession :: TerminalSession where
  "firstSession = \<lparr>sessionId = ''session-1'', sessionContainerId = ''container-a'',
     sessionRoomId = ''room-a'', sessionUserId = ''alice'', execInstance = None,
     isActive = True, startTime = 0\<rparr>"

text \<open>Two rooms untouched for two hours, one of them with a session.\<close>

definition twoIdleRooms :: "int TerminalState" where
  "twoIdleRooms = \<lparr>roomTerminals = [(''room-a'', busyRoom), (''room-b'', emptyRoom)],
     userSessions = [(''socket-1'', firstSession)], termWorld = 7200001, termCalls = []\<rparr>"

text \<open>
  A membership store that knows Alice and Bob in every room; a new container is named
  after its room, and the next session id is \<^verbatim>\<open>session-2\<close>.
\<close>

definition memberRuntime :: "int JoinRuntime" where
  "memberRuntime = \<lparr>
     getRoomUsers = (\<lambda>rid w. (Inr [''alice'', ''bob''], w)),
     createSharedContainer = (\<lambda>rid w. (Inr (''container-'' @ rid), w)),
     updateRoomContainer = (\<lambda>rid cid w. (Inr (), w)),
     uuidv4 = (\<lambda>w. (''session-2'', w)) \<rparr>"

text \<open>One room, untouched for two hours and without a session.\<close>

definition oneIdleRoom :: "int TerminalState" where
  "oneIdleRoom = \<lparr>roomTerminals = [(''room-b'', emptyRoom)],
     userSessions = [], termWorld = 7200001, termCalls = []\<rparr>"

text \<open>Bob joins the room while the sweep awaits the first call, \<^verbatim>\<open>container.stop\<close>.\<close>

definition joinDuringStop :: "TerminalEvent list list" where
  "joinDuringStop = [[JoinRoomTerminal ''socket-2'' ''room-b'' ''bob'']]"

text \<open>A session that has just been opened, at time 0.\<close>

definition freshSession :: "int TerminalState" where
  "freshSession = \<lparr>roomTerminals = [(''room-a'', busyRoom)],
     userSessions = [(''socket-1'', firstSession)], termWorld = 0, termCalls = []\<rparr>"

text \<open>Four inputs from the one socket; with the runtime above they take forty minutes.\<close>

definition fourInputs :: "(string \<times> string) list" where
  "fourInputs = [(''socket-1'', ''ls''), (''socket-1'', ''pwd''), (''socket-1'', ''ls''),
     (''socket-1'', ''pwd'')]"

section \<open>Properties of the sanitiser\<close>

lemma isRemovedControl_iff:
  "isRemovedControl c \<longleftrightarrow> isAsciiControl c \<and> \<not> isTabNewlineOrReturn c"
  unfolding isRemovedControl_def isAsciiControl_def isTabNewlineOrReturn_def
  by (simp add: word_le_nat_alt word_less_nat_alt word_unat_eq_iff) arith

lemma removeControlChars_clean:
  "c \<in> set (removeControlChars s) \<Longrightarrow> \<not> isRemovedControl c"
  by (simp add: removeControlChars_def)

lemma truncationMarker_clean:
  "c \<in> set truncationMarker \<Longrightarrow> \<not> isRemovedControl c"
  by (auto simp: truncationMarker_def isRemovedControl_def)

lemma length_truncationMarker: "length truncationMarker = 23"
  by (simp add: truncationMarker_def)

lemma sanitizeOutput_clean:
  assumes "c \<in> set (sanitizeOutput output)"
  shows "\<not> isRemovedControl c"
proof (cases "length (removeControlChars (removeAnsiColors output)) > MAX_OUTPUT_SIZE")
  case True
  with assms have "c \<in> set (take MAX_OUTPUT_SIZE (removeControlChars (removeAnsiColors output)))
      \<or> c \<in> set truncationMarker"
    by (simp add: sanitizeOutput_def)
  then show ?thesis
    by (auto dest: in_set_takeD removeControlChars_clean truncationMarker_clean)
next
  case False
  with assms show ?thesis
    by (auto simp: sanitizeOutput_def dest: removeControlChars_clean)
qed

text \<open>The marker, read as text between two newlines.\<close>

lemma truncationMarker_text:
  "truncationMarker
     = [0x0A] @ map (\<lambda>c. of_nat (of_char c)) ''[Output truncated...]'' @ [0x0A]"
  by (simp add: truncationMarker_def)

lemma removeAnsiColors_no_escape:
  "0x1B \<notin> set s \<Longrightarrow> removeAnsiColors s = s"
proof (induction s)
  case Nil
  then show ?case by simp
next
  case (Cons c cs)
  then have "matchAnsiColor (c # cs) = None"
    by (cases cs) auto
  with Cons show ?case by simp
qed

lemma long_chunk_cleaned:
  "removeControlChars (removeAnsiColors (replicate 50001 0x61)) = replicate 50001 0x61"
  by (simp add: removeAnsiColors_no_escape removeControlChars_def isRemovedControl_def)

text \<open>
  Claim C8, as the code has it. For every raw chunk, the sanitised output holds no ASCII
  control or escape code unit (\<^verbatim>\<open>U+0000\<close> to \<^verbatim>\<open>U+001F\<close>, and \<^verbatim>\<open>U+007F\<close>) other than
  tab, newline and carriage return. It is never longer than 50023 code units, the maximum
  of 50000 and the 23 of the marker. When the cleaned text is longer than the maximum, the
  output is its first 50000 code units followed by the marker
  \<^verbatim>\<open>'\n[Output truncated...]\n'\<close>, 50023 code units in all; otherwise the output is the
  cleaned text and nothing is appended.
\<close>

theorem sanitizeOutput_ascii_clean_and_capped:
  "(\<forall>c \<in> set (sanitizeOutput chunk). isAsciiControl c \<longrightarrow> isTabNewlineOrReturn c)
   \<and> MAX_OUTPUT_SIZE = 50000
   \<and> length (sanitizeOutput chunk) \<le> 50023
   \<and> (length (removeControlChars (removeAnsiColors chunk)) > MAX_OUTPUT_SIZE \<longrightarrow>
        sanitizeOutput chunk
          = take 50000 (removeControlChars (removeAnsiColors chunk))
            @ [0x0A, 0x5B, 0x4F, 0x75, 0x74, 0x70, 0x75, 0x74, 0x20, 0x74, 0x72, 0x75, 0x6E,
               0x63, 0x61, 0x74, 0x65, 0x64, 0x2E, 0x2E, 0x2E, 0x5D, 0x0A]
        \<and> length (sanitizeOutput chunk) = 50023)
   \<and> (length (removeControlChars (removeAnsiColors chunk)) \<le> MAX_OUTPUT_SIZE \<longrightarrow>
        sanitizeOutput chunk = removeControlChars (removeAnsiColors chunk))"
proof (intro conjI ballI impI)
  fix c
  assume "c \<in> set (sanitizeOutput chunk)" and "isAsciiControl c"
  then show "isTabNewlineOrReturn c"
    using sanitizeOutput_clean [of c chunk] by (simp add: isRemovedControl_iff)
next
  show "MAX_OUTPUT_SIZE = 50000"
    by (simp add: MAX_OUTPUT_SIZE_def)
next
  show "length (sanitizeOutput chunk) \<le> 50023"
    by (simp add: sanitizeOutput_def Let_def MAX_OUTPUT_SIZE_def truncationMarker_def)
next
  assume "MAX_OUTPUT_SIZE < length (removeControlChars (removeAnsiColors chunk))"
  then show "sanitizeOutput chunk
      = take 50000 (removeControlChars (removeAnsiColors chunk))
        @ [0x0A, 0x5B, 0x4F, 0x75, 0x74, 0x70, 0x75, 0x74, 0x20, 0x74, 0x72, 0x75, 0x6E,
           0x63, 0x61, 0x74, 0x65, 0x64, 0x2E, 0x2E, 0x2E, 0x5D, 0x0A]"
    by (simp add: sanitizeOutput_def Let_def MAX_OUTPUT_SIZE_def truncationMarker_def)
next
  assume "MAX_OUTPUT_SIZE < length (removeControlChars (removeAnsiColors chunk))"
  then show "length (sanitizeOutput chunk) = 50023"
    by (simp add: sanitizeOutput_def Let_def MAX_OUTPUT_SIZE_def truncationMarker_def)
next
  assume "length (removeControlChars (removeAnsiColors chunk)) \<le> MAX_OUTPUT_SIZE"
  then show "sanitizeOutput chunk = removeControlChars (removeAnsiColors chunk)"
    by (simp add: sanitizeOutput_def Let_def)
qed

text \<open>
  The chunk \<^verbatim>\<open>"\x1b[31mhi\x07\n"\<close>: the colour sequence and the bell go, \<^verbatim>\<open>"hi\n"\<close>
  stays and no marker is appended. A chunk of 50001 letters \<^verbatim>\<open>a\<close>: the first 50000 stay
  and the marker follows.
\<close>

theorem sanitizeOutput_ascii_clean_and_capped_witness:
  "sanitizeOutput [0x1B, 0x5B, 0x33, 0x31, 0x6D, 0x68, 0x69, 0x07, 0x0A] = [0x68, 0x69, 0x0A]
   \<and> 0x0A \<in> set (sanitizeOutput [0x1B, 0x5B, 0x33, 0x31, 0x6D, 0x68, 0x69, 0x07, 0x0A])
   \<and> isAsciiControl 0x0A
   \<and> isTabNewlineOrReturn 0x0A
   \<and> length (removeControlChars
         (removeAnsiColors [0x1B, 0x5B, 0x33, 0x31, 0x6D, 0x68, 0x69, 0x07, 0x0A]))
       \<le> MAX_OUTPUT_SIZE
   \<and> length (removeControlChars (removeAnsiColors (replicate 50001 0x61))) > MAX_OUTPUT_SIZE
   \<and> sanitizeOutput (replicate 50001 0x61)
       = replicate 50000 0x61
         @ [0x0A, 0x5B, 0x4F, 0x75, 0x74, 0x70, 0x75, 0x74, 0x20, 0x74, 0x72, 0x75, 0x6E,
            0x63, 0x61, 0x74, 0x65, 0x64, 0x2E, 0x2E, 0x2E, 0x5D, 0x0A]
   \<and> length (sanitizeOutput (replicate 50001 0x61)) = 50023"
proof -
  have e: "sanitizeOutput [0x1B, 0x5B, 0x33, 0x31, 0x6D, 0x68, 0x69, 0x07, 0x0A]
      = [0x68, 0x69, 0x0A]"
    by (simp add: sanitizeOutput_def removeControlChars_def isRemovedControl_def
        isAnsiParam_def MAX_OUTPUT_SIZE_def)
  have m: "0x0A \<in> set (sanitizeOutput [0x1B, 0x5B, 0x33, 0x31, 0x6D, 0x68, 0x69, 0x07, 0x0A])"
    by (simp add: e)
  have a: "isAsciiControl 0x0A"
    by (simp add: isAsciiControl_def)
  have l: "length (removeControlChars
      (removeAnsiColors [0x1B, 0x5B, 0x33, 0x31, 0x6D, 0x68, 0x69, 0x07, 0x0A]))
      \<le> MAX_OUTPUT_SIZE"
    by (simp add: removeControlChars_def isRemovedControl_def isAnsiParam_def
        MAX_OUTPUT_SIZE_def)
  have g: "length (removeControlChars (removeAnsiColors (replicate 50001 0x61)))
      > MAX_OUTPUT_SIZE"
    by (simp add: long_chunk_cleaned MAX_OUTPUT_SIZE_def)
  from sanitizeOutput_ascii_clean_and_capped
      [of "[0x1B, 0x5B, 0x33, 0x31, 0x6D, 0x68, 0x69, 0x07, 0x0A]"] m a
  have t: "isTabNewlineOrReturn 0x0A" by blast
  from sanitizeOutput_ascii_clean_and_capped [of "replicate 50001 0x61"] g
  have "sanitizeOutput (replicate 50001 0x61)
          = take 50000 (removeControlChars (removeAnsiColors (replicate 50001 0x61)))
            @ [0x0A, 0x5B, 0x4F, 0x75, 0x74, 0x70, 0x75, 0x74, 0x20, 0x74, 0x72, 0x75, 0x6E,
               0x63, 0x61, 0x74, 0x65, 0x64, 0x2E, 0x2E, 0x2E, 0x5D, 0x0A]"
    and n: "length (sanitizeOutput (replicate 50001 0x61)) = 50023"
    by blast+
  then have b: "sanitizeOutput (replicate 50001 0x61)
       = replicate 50000 0x61
         @ [0x0A, 0x5B, 0x4F, 0x75, 0x74, 0x70, 0x75, 0x74, 0x20, 0x74, 0x72, 0x75, 0x6E,
            0x63, 0x61, 0x74, 0x65, 0x64, 0x2E, 0x2E, 0x2E, 0x5D, 0x0A]"
    by (simp add: long_chunk_cleaned)
  from e m a t l g b n show ?thesis by blast
qed

text \<open>
  The control characters above \<^verbatim>\<open>U+007F\<close> are not in the class the code removes: the
  colour sequence \<^verbatim>\<open>"\x9b31m"\<close>, written with the one-unit escape, passes unchanged.
\<close>

theorem c1_control_sequence_passes:
  "sanitizeOutput [0x9B, 0x33, 0x31, 0x6D] = [0x9B, 0x33, 0x31, 0x6D]
   \<and> 0x9B \<in> set (sanitizeOutput [0x9B, 0x33, 0x31, 0x6D])
   \<and> isControlCodeUnit 0x9B
   \<and> \<not> isTabNewlineOrReturn 0x9B"
  by (simp add: sanitizeOutput_def removeControlChars_def isRemovedControl_def
      isAnsiParam_def MAX_OUTPUT_SIZE_def isControlCodeUnit_def isTabNewlineOrReturn_def)

section \<open>Properties of the persistent contexts\<close>

lemma dockerExec_effect:
  "dockerExec rt cid command s = (r, s1) \<Longrightarrow>
     persistentContexts s1 = persistentContexts s
     \<and> dockerCalls s1 = dockerCalls s @ [ExecuteCommand cid command]"
  by (auto simp: dockerExec_def split: prod.splits)

lemma dockerExec_answer:
  "dockerExec rt cid command s = (r, s1) \<Longrightarrow>
     r = fst (dockerExecuteCommand rt cid command (world s))"
  by (auto simp: dockerExec_def split: prod.splits)




lemma createPersistentContext_registers:
  "createPersistentContext tiers rt uid lang s = (Inr context, s1) \<Longrightarrow>
     map_of (persistentContexts s1) (contextKeyOf uid lang) = Some context"
  by (auto simp: createPersistentContext_def Let_def AList.update_conv
      split: option.splits prod.splits sum.splits)

lemma getOrCreate_registers:
  assumes "getOrCreatePersistentContext tiers rt uid lang s = (Inr context, s1)"
  shows "map_of (persistentContexts s1) (contextKeyOf uid lang) = Some context"
proof (cases "map_of (persistentContexts s) (contextKeyOf uid lang)")
  case None
  with assms show ?thesis
    by (simp add: getOrCreatePersistentContext_def createPersistentContext_registers)
next
  case (Some found)
  obtain r s0 where e: "dockerExec rt (containerId found) aliveProbe s = (r, s0)"
    by (cases "dockerExec rt (containerId found) aliveProbe s")
  note eff = dockerExec_effect [OF e]
  show ?thesis
  proof (cases r)
    case (Inl err)
    with assms Some e show ?thesis
      by (simp add: getOrCreatePersistentContext_def createPersistentContext_registers)
  next
    case (Inr res)
    with assms Some e eff show ?thesis
      by (auto simp: getOrCreatePersistentContext_def)
  qed
qed

text \<open>
  Claim C3. While the sandbox of the registered context answers the liveness probe,
  \<^verbatim>\<open>getOrCreate\<close> is idempotent: after a call that returned a context, a second call for
  the same owner and language returns the same context, bound to the same container; the
  only call it issues is the probe (so no container is created), and the registry is
  unchanged.
\<close>

theorem getOrCreate_idempotent_while_alive:
  assumes first: "getOrCreatePersistentContext tiers rt uid lang s = (Inr context, s1)"
    and alive: "fst (dockerExecuteCommand rt (containerId context) aliveProbe (world s1))
                  = Inr answer"
  shows "\<exists>context2 s2. getOrCreatePersistentContext tiers rt uid lang s1 = (Inr context2, s2)
           \<and> containerId context2 = containerId context
           \<and> context2 = context
           \<and> persistentContexts s2 = persistentContexts s1
           \<and> dockerCalls s2
               = dockerCalls s1 @ [ExecuteCommand (containerId context) aliveProbe]"
proof -
  from first have reg: "map_of (persistentContexts s1) (contextKeyOf uid lang) = Some context"
    by (rule getOrCreate_registers)
  obtain r s2 where e: "dockerExec rt (containerId context) aliveProbe s1 = (r, s2)"
    by (cases "dockerExec rt (containerId context) aliveProbe s1")
  note eff = dockerExec_effect [OF e]
  from dockerExec_answer [OF e] alive have r: "r = Inr answer" by simp
  from reg e r have "getOrCreatePersistentContext tiers rt uid lang s1 = (Inr context, s2)"
    by (simp add: getOrCreatePersistentContext_def)
  with eff show ?thesis by simp
qed


text \<open>
  Alice's first Go request creates a container and runs the setup command; her second
  one only probes it.
\<close>

lemma first_go_context:
  "fst (getOrCreatePersistentContext languageTiers steadyRuntime ''alice'' ''go'' noContexts)
     = Inr (aliceContext ''go'' 1000)
   \<and> dockerCalls (snd (getOrCreatePersistentContext languageTiers steadyRuntime
        ''alice'' ''go'' noContexts))
     = [CreateDynamicContainer \<lparr>cfgLanguage = ''go'', cfgIsPersistent = True,
          cfgRoomId = Some ''alice-go-1000'', cfgCustomPackages = None\<rparr>,
        ExecuteCommand ''container-go'' ''apk add --no-cache git'']"
  by (simp add: getOrCreatePersistentContext_def createPersistentContext_def
      enforceUserContextLimit_def userContextsByAge_def steadyRuntime_def exampleRuntime_def
      silent_def aliceContext_def noContexts_def contextKeyOf_def
      languageTiers_def goTier_def MAX_CONTEXTS_PER_USER_def
      dockerExec_def dockerCreate_def Let_def showNat.simps char_of_eq_iff)

theorem getOrCreate_idempotent_while_alive_witness:
  "fst (getOrCreatePersistentContext languageTiers steadyRuntime ''alice'' ''go'' noContexts)
     = Inr (aliceContext ''go'' 1000)
   \<and> fst (dockerExecuteCommand steadyRuntime (containerId (aliceContext ''go'' 1000))
        aliveProbe
        (world (snd (getOrCreatePersistentContext languageTiers steadyRuntime
           ''alice'' ''go'' noContexts))))
     = Inr silent
   \<and> (\<exists>context2 s2.
        getOrCreatePersistentContext languageTiers steadyRuntime ''alice'' ''go''
          (snd (getOrCreatePersistentContext languageTiers steadyRuntime
             ''alice'' ''go'' noContexts))
          = (Inr context2, s2)
        \<and> containerId context2 = ''container-go''
        \<and> dockerCalls s2
            = [CreateDynamicContainer \<lparr>cfgLanguage = ''go'', cfgIsPersistent = True,
                 cfgRoomId = Some ''alice-go-1000'', cfgCustomPackages = None\<rparr>,
               ExecuteCommand ''container-go'' ''apk add --no-cache git'',
               ExecuteCommand ''container-go'' aliveProbe])"
proof -
  let ?first = "getOrCreatePersistentContext languageTiers steadyRuntime ''alice'' ''go''
      noContexts"
  from first_go_context have f: "?first = (Inr (aliceContext ''go'' 1000), snd ?first)"
    by (cases ?first) simp
  have a: "fst (dockerExecuteCommand steadyRuntime (containerId (aliceContext ''go'' 1000))
      aliveProbe (world (snd ?first))) = Inr silent"
    by (simp add: steadyRuntime_def exampleRuntime_def)
  have c: "containerId (aliceContext ''go'' 1000) = ''container-go''"
    by (simp add: aliceContext_def)
  from getOrCreate_idempotent_while_alive [OF f a] c first_go_context
  have "\<exists>context2 s2.
        getOrCreatePersistentContext languageTiers steadyRuntime ''alice'' ''go'' (snd ?first)
          = (Inr context2, s2)
        \<and> containerId context2 = ''container-go''
        \<and> dockerCalls s2
            = [CreateDynamicContainer \<lparr>cfgLanguage = ''go'', cfgIsPersistent = True,
                 cfgRoomId = Some ''alice-go-1000'', cfgCustomPackages = None\<rparr>,
               ExecuteCommand ''container-go'' ''apk add --no-cache git'',
               ExecuteCommand ''container-go'' aliveProbe]"
    by auto
  with first_go_context a show ?thesis by blast
qed

lemma evictWhileOverLimit_under:
  "length ucs < MAX_CONTEXTS_PER_USER \<Longrightarrow> evictWhileOverLimit rt ucs s = s"
  by (cases ucs) auto






lemma createPersistentContext_unsupported:
  "tiers lang = None \<Longrightarrow>
   createPersistentContext tiers rt uid lang s
     = (Inl (''Unsupported language: '' @ lang), enforceUserContextLimit rt uid s)"
  by (simp add: createPersistentContext_def)






section \<open>Properties of package installation\<close>

lemma joinWith_snoc:
  "joinWith sep (xs @ [p]) = (if xs = [] then p else joinWith sep xs @ sep @ p)"
  by (induction sep xs rule: joinWith.induct) auto

lemma installCommandOf_inj:
  "installCommandOf installPrefix p = installCommandOf installPrefix q \<Longrightarrow> p = q"
  by (simp add: installCommandOf_def joinWith_snoc split: if_splits)

lemma leadingSuccesses_le: "leadingSuccesses rt cid commands w \<le> length commands"
  by (induction commands arbitrary: w) (auto split: prod.splits sum.splits)

lemma installEach_exact:
  assumes "installEach rt installPrefix pkgs ctx s = (r, ctx', s')"
    and "k = leadingSuccesses rt (containerId ctx) (map (installCommandOf installPrefix) pkgs)
               (world s)"
  shows "dockerCalls s' = dockerCalls s
           @ map (\<lambda>p. ExecuteCommand (containerId ctx) (installCommandOf installPrefix p))
               (take (Suc k) pkgs)
     \<and> persistentContexts s' = persistentContexts s
     \<and> ctx' = ctx\<lparr>installedPackages := installedPackages ctx \<union> set (take k pkgs)\<rparr>
     \<and> r = (if k = length pkgs then Inr ()
            else Inl (''Failed to install package: '' @ pkgs ! k))"
  using assms
proof (induction pkgs arbitrary: ctx s k)
  case Nil
  then show ?case by simp
next
  case (Cons p pkgs)
  obtain a w1 where o: "dockerExecuteCommand rt (containerId ctx)
      (installCommandOf installPrefix p) (world s) = (a, w1)"
    by (cases "dockerExecuteCommand rt (containerId ctx)
      (installCommandOf installPrefix p) (world s)")
  define s1 where "s1 = s\<lparr>world := w1, dockerCalls := dockerCalls s
      @ [ExecuteCommand (containerId ctx) (installCommandOf installPrefix p)]\<rparr>"
  have e: "dockerExec rt (containerId ctx) (joinWith '' '' (installPrefix @ [p])) s = (a, s1)"
    using o by (simp add: dockerExec_def s1_def installCommandOf_def)
  show ?case
  proof (cases a)
    case (Inl err)
    with Cons.prems e o have "r = Inl (''Failed to install package: '' @ p)" "ctx' = ctx"
        "s' = s1" "k = 0"
      by simp_all
    then show ?thesis by (simp add: s1_def)
  next
    case (Inr res)
    let ?ctx1 = "ctx\<lparr>installedPackages := insert p (installedPackages ctx)\<rparr>"
    define k1 where "k1 = leadingSuccesses rt (containerId ?ctx1)
        (map (installCommandOf installPrefix) pkgs) (world s1)"
    from Cons.prems e Inr have run: "installEach rt installPrefix pkgs ?ctx1 s1 = (r, ctx', s')"
      by simp
    from Cons.prems(2) o Inr have k: "k = Suc k1"
      by (simp add: k1_def s1_def)
    from Cons.IH [OF run k1_def] k show ?thesis
      by (auto simp: s1_def)
  qed
qed

lemma installPackages_supported:
  "tiers (language ctx) = Some languageConfig \<Longrightarrow>
   packageInstallCommand languageConfig = Some installPrefix \<Longrightarrow>
   installPackages tiers rt ctx packages s
     = installEach rt installPrefix (filter (\<lambda>pkg. pkg \<notin> installedPackages ctx) packages) ctx s"
  by (simp add: installPackages_def Let_def)

lemma installPackages_rejected:
  "tiers (language ctx) = None
     \<or> (\<exists>languageConfig. tiers (language ctx) = Some languageConfig
           \<and> packageInstallCommand languageConfig = None) \<Longrightarrow>
   installPackages tiers rt ctx packages s
     = (Inl (''Package installation not supported for '' @ language ctx), ctx, s)"
  by (auto simp: installPackages_def)

text \<open>
  Claim C4, as the code has it. For a language with an install prefix, let \<open>new\<close> be the
  entries of the batch whose name was not in \<^verbatim>\<open>installedPackages\<close> when the call started,
  in batch order and with their repetitions, and let \<open>k\<close> be the number of their install
  commands that the container layer resolves before it rejects one. Then
  \<^verbatim>\<open>installPackages\<close> issues the install commands of the first \<open>k + 1\<close> entries of \<open>new\<close>,
  one per entry: those that were resolved and the first rejected one, and nothing after
  it. The call returns exactly when no command was rejected. A name already in
  \<^verbatim>\<open>installedPackages\<close> causes no command; a new name that is twice in the batch is twice
  in \<open>new\<close>.
\<close>

theorem installPackages_one_command_per_new_entry:
  assumes t: "tiers (language ctx) = Some languageConfig"
    and c: "packageInstallCommand languageConfig = Some installPrefix"
    and new: "new = filter (\<lambda>pkg. pkg \<notin> installedPackages ctx) packages"
    and k: "k = leadingSuccesses rt (containerId ctx)
                  (map (installCommandOf installPrefix) new) (world s)"
    and run: "installPackages tiers rt ctx packages s = (r, ctx', s')"
  shows "dockerCalls s' = dockerCalls s
           @ map (\<lambda>p. ExecuteCommand (containerId ctx) (installCommandOf installPrefix p))
               (take (Suc k) new)
     \<and> k \<le> length new
     \<and> (r = Inr ()) = (k = length new)
     \<and> (\<forall>p. p \<in> installedPackages ctx \<longrightarrow>
           ExecuteCommand (containerId ctx) (installCommandOf installPrefix p)
             \<notin> set (drop (length (dockerCalls s)) (dockerCalls s')))"
proof -
  let ?mk = "\<lambda>p. ExecuteCommand (containerId ctx) (installCommandOf installPrefix p)"
  from run have e: "installEach rt installPrefix new ctx s = (r, ctx', s')"
    by (simp add: installPackages_supported [where tiers = tiers, OF t c] new)
  from installEach_exact [OF e k]
  have calls: "dockerCalls s' = dockerCalls s @ map ?mk (take (Suc k) new)"
    and r: "r = (if k = length new then Inr ()
            else Inl (''Failed to install package: '' @ new ! k))"
    by simp_all
  have le: "k \<le> length new"
    unfolding k using leadingSuccesses_le [of rt "containerId ctx"
        "map (installCommandOf installPrefix) new" "world s"] by simp
  have none: "?mk p \<notin> set (map ?mk (take (Suc k) new))" if "p \<in> installedPackages ctx" for p
  proof
    assume "?mk p \<in> set (map ?mk (take (Suc k) new))"
    then obtain q where q: "q \<in> set (take (Suc k) new)" and "?mk p = ?mk q" by auto
    then have "p = q" by (auto dest: installCommandOf_inj)
    moreover from q have "q \<in> set new" by (rule in_set_takeD)
    ultimately show False using that by (simp add: new)
  qed
  from r have "(r = Inr ()) = (k = length new)" by simp
  with calls le none show ?thesis by simp
qed

text \<open>
  A batch with an installed name, a new name twice, an unknown package and one more name:
  nothing for \<^verbatim>\<open>requests\<close>, two commands for \<^verbatim>\<open>flask\<close>, the rejected command, and none
  for the name after it.
\<close>

lemma mixedBatch_facts:
  "filter (\<lambda>pkg. pkg \<notin> installedPackages alicePython)
     [''requests'', ''flask'', ''flask'', ''nonexistent-pkg-xyz'', ''numpy'']
     = [''flask'', ''flask'', ''nonexistent-pkg-xyz'', ''numpy'']
   \<and> leadingSuccesses unknownPackageRuntime (containerId alicePython)
        (map (installCommandOf [''pip'', ''install'', ''--no-cache-dir''])
           [''flask'', ''flask'', ''nonexistent-pkg-xyz'', ''numpy''])
        (world aliceWithPython) = 2"
  by (simp add: alicePython_def aliceContext_def aliceWithPython_def installCommandOf_def
      unknownPackageRuntime_def exampleRuntime_def)

theorem installPackages_one_command_per_new_entry_witness:
  "languageTiers (language alicePython) = Some pythonTier
   \<and> packageInstallCommand pythonTier = Some [''pip'', ''install'', ''--no-cache-dir'']
   \<and> ''requests'' \<in> installedPackages alicePython
   \<and> filter (\<lambda>pkg. pkg \<notin> installedPackages alicePython)
        [''requests'', ''flask'', ''flask'', ''nonexistent-pkg-xyz'', ''numpy'']
       = [''flask'', ''flask'', ''nonexistent-pkg-xyz'', ''numpy'']
   \<and> leadingSuccesses unknownPackageRuntime (containerId alicePython)
        (map (installCommandOf [''pip'', ''install'', ''--no-cache-dir''])
           [''flask'', ''flask'', ''nonexistent-pkg-xyz'', ''numpy''])
        (world aliceWithPython) = 2
   \<and> dockerCalls (snd (snd (installPackages languageTiers unknownPackageRuntime alicePython
        [''requests'', ''flask'', ''flask'', ''nonexistent-pkg-xyz'', ''numpy'']
        aliceWithPython)))
       = [ExecuteCommand ''container-python'' ''pip install --no-cache-dir flask'',
          ExecuteCommand ''container-python'' ''pip install --no-cache-dir flask'',
          ExecuteCommand ''container-python''
            ''pip install --no-cache-dir nonexistent-pkg-xyz'']
   \<and> fst (installPackages languageTiers unknownPackageRuntime alicePython
        [''requests'', ''flask'', ''flask'', ''nonexistent-pkg-xyz'', ''numpy'']
        aliceWithPython) \<noteq> Inr ()"
proof -
  let ?batch = "[''requests'', ''flask'', ''flask'', ''nonexistent-pkg-xyz'', ''numpy'']"
  let ?run = "installPackages languageTiers unknownPackageRuntime alicePython ?batch
      aliceWithPython"
  have t: "languageTiers (language alicePython) = Some pythonTier"
    by (simp add: alicePython_def aliceContext_def languageTiers_def)
  have c: "packageInstallCommand pythonTier = Some [''pip'', ''install'', ''--no-cache-dir'']"
    by (simp add: pythonTier_def)
  have i: "''requests'' \<in> installedPackages alicePython"
    by (simp add: alicePython_def)
  note f = mixedBatch_facts
  have e: "?run = (fst ?run, fst (snd ?run), snd (snd ?run))"
    by simp
  from installPackages_one_command_per_new_entry
    [where tiers = languageTiers, OF t c f [THEN conjunct1, symmetric]
      f [THEN conjunct2, symmetric] e]
  have "dockerCalls (snd (snd ?run)) = dockerCalls aliceWithPython
           @ map (\<lambda>p. ExecuteCommand (containerId alicePython)
                    (installCommandOf [''pip'', ''install'', ''--no-cache-dir''] p))
               (take (Suc 2) [''flask'', ''flask'', ''nonexistent-pkg-xyz'', ''numpy''])"
    and "(fst ?run = Inr ())
           = (2 = length [''flask'', ''flask'', ''nonexistent-pkg-xyz'', ''numpy''])"
    by blast+
  then have "dockerCalls (snd (snd ?run))
       = [ExecuteCommand ''container-python'' ''pip install --no-cache-dir flask'',
          ExecuteCommand ''container-python'' ''pip install --no-cache-dir flask'',
          ExecuteCommand ''container-python''
            ''pip install --no-cache-dir nonexistent-pkg-xyz'']"
    and "fst ?run \<noteq> Inr ()"
    by (simp_all add: aliceWithPython_def alicePython_def aliceContext_def
        installCommandOf_def)
  with t c i f show ?thesis by blast
qed

text \<open>
  The batch \<^verbatim>\<open>["numpy", "numpy"]\<close> on a context without \<^verbatim>\<open>numpy\<close>: the install command
  for \<^verbatim>\<open>numpy\<close> is issued twice, not once.
\<close>

theorem duplicate_name_installed_twice:
  "dockerCalls (snd (snd (installPackages languageTiers steadyRuntime alicePython
      [''numpy'', ''numpy''] aliceWithPython)))
     = [ExecuteCommand ''container-python'' ''pip install --no-cache-dir numpy'',
        ExecuteCommand ''container-python'' ''pip install --no-cache-dir numpy'']
   \<and> length (filter (\<lambda>c. c = ExecuteCommand ''container-python''
                                 ''pip install --no-cache-dir numpy'')
        (dockerCalls (snd (snd (installPackages languageTiers steadyRuntime alicePython
           [''numpy'', ''numpy''] aliceWithPython))))) = 2"
  by (simp add: installPackages_def steadyRuntime_def exampleRuntime_def silent_def
      aliceContext_def alicePython_def aliceWithPython_def languageTiers_def pythonTier_def
      dockerExec_def Let_def)

text \<open>
  Claim C5, as the code has it. When \<^verbatim>\<open>executeCommand\<close> rejects the install command of an
  entry (the entry at position \<open>k\<close> of \<open>new\<close>, after \<open>k\<close> resolved commands),
  \<^verbatim>\<open>installPackages\<close> throws \<^verbatim>\<open>Failed to install package: \<close> with the name of that entry;
  it returns no list. The commands issued are those of the entries up to that one, so the
  entries after it are not attempted. The entries before it are in
  \<^verbatim>\<open>installedPackages\<close>, and the rejected attempt adds nothing: the name is in
  \<^verbatim>\<open>installedPackages\<close> afterwards only if an earlier entry of the batch had installed it.
\<close>

theorem installPackages_rejected_command_is_thrown:
  assumes t: "tiers (language ctx) = Some languageConfig"
    and c: "packageInstallCommand languageConfig = Some installPrefix"
    and new: "new = filter (\<lambda>pkg. pkg \<notin> installedPackages ctx) packages"
    and k: "k = leadingSuccesses rt (containerId ctx)
                  (map (installCommandOf installPrefix) new) (world s)"
    and fails: "k < length new"
  shows "\<exists>s'. installPackages tiers rt ctx packages s
            = (Inl (''Failed to install package: '' @ new ! k),
               ctx\<lparr>installedPackages := installedPackages ctx \<union> set (take k new)\<rparr>, s')
      \<and> dockerCalls s' = dockerCalls s
           @ map (\<lambda>p. ExecuteCommand (containerId ctx) (installCommandOf installPrefix p))
               (take (Suc k) new)
      \<and> persistentContexts s' = persistentContexts s
      \<and> (new ! k \<in> installedPackages ctx \<union> set (take k new)) = (new ! k \<in> set (take k new))"
proof -
  obtain r ctx' s' where e: "installEach rt installPrefix new ctx s = (r, ctx', s')"
    by (cases "installEach rt installPrefix new ctx s")
  from installEach_exact [OF e k] fails
  have r: "r = Inl (''Failed to install package: '' @ new ! k)"
    and ctx': "ctx' = ctx\<lparr>installedPackages := installedPackages ctx \<union> set (take k new)\<rparr>"
    and calls: "dockerCalls s' = dockerCalls s
           @ map (\<lambda>p. ExecuteCommand (containerId ctx) (installCommandOf installPrefix p))
               (take (Suc k) new)"
    and reg: "persistentContexts s' = persistentContexts s"
    by simp_all
  from fails have "new ! k \<in> set new" by simp
  then have fresh: "new ! k \<notin> installedPackages ctx" by (simp add: new)
  have "installPackages tiers rt ctx packages s = (r, ctx', s')"
    using e by (simp add: installPackages_supported [where tiers = tiers, OF t c] new)
  with r ctx' calls reg fresh show ?thesis by auto
qed

text \<open>
  A batch whose second entry is rejected: the first is installed, the third is never tried.
\<close>

lemma failingBatch_facts:
  "filter (\<lambda>pkg. pkg \<notin> installedPackages alicePython)
     [''flask'', ''nonexistent-pkg-xyz'', ''numpy'']
     = [''flask'', ''nonexistent-pkg-xyz'', ''numpy'']
   \<and> leadingSuccesses unknownPackageRuntime (containerId alicePython)
        (map (installCommandOf [''pip'', ''install'', ''--no-cache-dir''])
           [''flask'', ''nonexistent-pkg-xyz'', ''numpy''])
        (world aliceWithPython) = 1"
  by (simp add: alicePython_def aliceContext_def aliceWithPython_def installCommandOf_def
      unknownPackageRuntime_def exampleRuntime_def)

theorem installPackages_rejected_command_is_thrown_witness:
  "languageTiers (language alicePython) = Some pythonTier
   \<and> packageInstallCommand pythonTier = Some [''pip'', ''install'', ''--no-cache-dir'']
   \<and> filter (\<lambda>pkg. pkg \<notin> installedPackages alicePython)
        [''flask'', ''nonexistent-pkg-xyz'', ''numpy'']
       = [''flask'', ''nonexistent-pkg-xyz'', ''numpy'']
   \<and> leadingSuccesses unknownPackageRuntime (containerId alicePython)
        (map (installCommandOf [''pip'', ''install'', ''--no-cache-dir''])
           [''flask'', ''nonexistent-pkg-xyz'', ''numpy''])
        (world aliceWithPython) = 1
   \<and> (1::nat) < length [''flask'', ''nonexistent-pkg-xyz'', ''numpy'']
   \<and> fst (installPackages languageTiers unknownPackageRuntime alicePython
        [''flask'', ''nonexistent-pkg-xyz'', ''numpy''] aliceWithPython)
       = Inl ''Failed to install package: nonexistent-pkg-xyz''
   \<and> installedPackages (fst (snd (installPackages languageTiers unknownPackageRuntime
        alicePython [''flask'', ''nonexistent-pkg-xyz'', ''numpy''] aliceWithPython)))
       = {''requests'', ''flask''}
   \<and> dockerCalls (snd (snd (installPackages languageTiers unknownPackageRuntime
        alicePython [''flask'', ''nonexistent-pkg-xyz'', ''numpy''] aliceWithPython)))
       = [ExecuteCommand ''container-python'' ''pip install --no-cache-dir flask'',
          ExecuteCommand ''container-python''
            ''pip install --no-cache-dir nonexistent-pkg-xyz'']"
proof -
  let ?batch = "[''flask'', ''nonexistent-pkg-xyz'', ''numpy'']"
  let ?run = "installPackages languageTiers unknownPackageRuntime alicePython ?batch
      aliceWithPython"
  have t: "languageTiers (language alicePython) = Some pythonTier"
    by (simp add: alicePython_def aliceContext_def languageTiers_def)
  have c: "packageInstallCommand pythonTier = Some [''pip'', ''install'', ''--no-cache-dir'']"
    by (simp add: pythonTier_def)
  note f = failingBatch_facts
  have l: "(1::nat) < length ?batch" by simp
  from installPackages_rejected_command_is_thrown
    [where tiers = languageTiers and rt = unknownPackageRuntime and s = aliceWithPython,
      OF t c f [THEN conjunct1, symmetric] f [THEN conjunct2, symmetric] l]
  obtain s' where run: "?run
        = (Inl (''Failed to install package: '' @ ?batch ! 1),
           alicePython\<lparr>installedPackages := installedPackages alicePython \<union> set (take 1 ?batch)\<rparr>,
           s')"
    and calls: "dockerCalls s' = dockerCalls aliceWithPython
           @ map (\<lambda>p. ExecuteCommand (containerId alicePython)
                    (installCommandOf [''pip'', ''install'', ''--no-cache-dir''] p))
               (take (Suc 1) ?batch)"
    by blast
  from run have "fst ?run = Inl ''Failed to install package: nonexistent-pkg-xyz''"
    and "installedPackages (fst (snd ?run)) = {''requests'', ''flask''}"
    by (auto simp: alicePython_def)
  moreover from run calls have "dockerCalls (snd (snd ?run))
       = [ExecuteCommand ''container-python'' ''pip install --no-cache-dir flask'',
          ExecuteCommand ''container-python''
            ''pip install --no-cache-dir nonexistent-pkg-xyz'']"
    by (simp add: aliceWithPython_def alicePython_def aliceContext_def installCommandOf_def)
  ultimately show ?thesis using t c f l by blast
qed

text \<open>
  The batch \<^verbatim>\<open>["nonexistent-pkg-xyz"]\<close>: \<^verbatim>\<open>installPackages\<close> throws, and \<^verbatim>\<open>executeCode\<close>
  turns the throw into its one error result. No list with an entry per package comes
  back from either.
\<close>

theorem failed_install_throws:
  "fst (installPackages languageTiers unknownPackageRuntime alicePython
      [''nonexistent-pkg-xyz''] aliceWithPython)
     = Inl ''Failed to install package: nonexistent-pkg-xyz''
   \<and> fst (executeCode languageTiers unknownPackageRuntime
        installRequest aliceWithPython)
     = \<lparr>resultOutput = [],
        resultError = ''Execution failed: Failed to install package: nonexistent-pkg-xyz'',
        exitCode = 1, files = None, executionTime = 0, resultContextId = ''error''\<rparr>"
  by (simp add: installPackages_def executeCode_def getOrCreatePersistentContext_def
      executionFailed_def mutateContext_def contextKeyOf_def aliveProbe_def dquote_def
      unknownPackageRuntime_def exampleRuntime_def silent_def aliceContext_def
      installRequest_def alicePython_def aliceWithPython_def languageTiers_def pythonTier_def
      dockerExec_def Let_def)

section \<open>Properties of running code\<close>

lemma executeCodeInContext_exitCode:
  "executeCodeInContext tiers rt ctx request s = (Inr res, s') \<Longrightarrow> exitCode res = 0"
  by (auto simp: executeCodeInContext_def Let_def
      split: option.splits prod.splits sum.splits)

lemma executeCodeInContainer_exitCode:
  "executeCodeInContainer tiers rt cid lang fileName inp s = (Inr res, s') \<Longrightarrow>
     exitCode res = (if resultError res \<noteq> [] then 1 else 0)"
  by (auto simp: executeCodeInContainer_def Let_def
      split: option.splits prod.splits sum.splits)

lemma executionFailed_shape:
  "exitCode (fst (executionFailed rt t0 e s)) = 1
   \<and> resultContextId (fst (executionFailed rt t0 e s)) = ''error''
   \<and> resultOutput (fst (executionFailed rt t0 e s)) = []
   \<and> resultError (fst (executionFailed rt t0 e s)) = ''Execution failed: '' @ e"
  by (simp add: executionFailed_def)

text \<open>
  Whatever the container layer does, \<^verbatim>\<open>executeCode\<close> answers either with exit code 0 or
  with the result of its \<^verbatim>\<open>catch\<close> branch: it has no result with the output of a run and
  a non-zero exit code.
\<close>

lemma executeCode_exitCode:
  "exitCode (fst (executeCode tiers rt request s)) = 0
   \<or> (exitCode (fst (executeCode tiers rt request s)) = 1
       \<and> resultContextId (fst (executeCode tiers rt request s)) = ''error''
       \<and> resultOutput (fst (executeCode tiers rt request s)) = []
       \<and> take 18 (resultError (fst (executeCode tiers rt request s))) = ''Execution failed: '')"
proof -
  define uid where "uid = (if truthy (reqUserId request)
      then (case reqUserId request of Some u \<Rightarrow> u | None \<Rightarrow> []) else ''anonymous'')"
  define t0 where "t0 = dateNow rt (world s)"
  define key where "key = contextKeyOf uid (reqLanguage request)"
  have failed: "?thesis" if "executeCode tiers rt request s = executionFailed rt t0 e s1" for e s1
    unfolding that using executionFailed_shape [of rt t0 e s1] by simp
  obtain g s1 where g: "getOrCreatePersistentContext tiers rt uid (reqLanguage request) s = (g, s1)"
    by (cases "getOrCreatePersistentContext tiers rt uid (reqLanguage request) s")
  show ?thesis
  proof (cases g)
    case (Inl e)
    with g have "executeCode tiers rt request s = executionFailed rt t0 e s1"
      by (simp add: executeCode_def Let_def uid_def t0_def)
    then show ?thesis by (rule failed)
  next
    case (Inr ctx)
    define inst where "inst = (case reqPackages request of
        None \<Rightarrow> (Inr (), ctx, s1)
      | Some pkgs \<Rightarrow> if length pkgs > 0 then installPackages tiers rt ctx pkgs s1
                     else (Inr (), ctx, s1))"
    obtain i ctx2 s2 where i: "inst = (i, ctx2, s2)" by (cases inst)
    show ?thesis
    proof (cases i)
      case il: (Inl e)
      with g Inr i have "executeCode tiers rt request s
          = executionFailed rt t0 e (mutateContext key ctx2 s2)"
        by (simp add: executeCode_def Let_def uid_def t0_def key_def inst_def)
      then show ?thesis by (rule failed)
    next
      case ir: (Inr u)
      obtain x s3 where x: "executeCodeInContext tiers rt ctx2 request
          (mutateContext key ctx2 s2) = (x, s3)"
        by (cases "executeCodeInContext tiers rt ctx2 request (mutateContext key ctx2 s2)")
      show ?thesis
      proof (cases x)
        case xl: (Inl e)
        with g Inr i ir x have "executeCode tiers rt request s = executionFailed rt t0 e s3"
          by (simp add: executeCode_def Let_def uid_def t0_def key_def inst_def)
        then show ?thesis by (rule failed)
      next
        case xr: (Inr res)
        with x have "exitCode res = 0"
          by (auto dest: executeCodeInContext_exitCode)
        with g Inr i ir x xr show ?thesis
          by (simp add: executeCode_def Let_def uid_def t0_def key_def inst_def)
      qed
    qed
  qed
qed

text \<open>
  Claim C1. A program that runs and fails must come back as a normal result with a
  non-zero exit code. \<^verbatim>\<open>executeCodeInContext\<close> sets \<^verbatim>\<open>exitCode: 0\<close> whatever the command
  returned: for a Python program that raises, with the interpreter's error text in the
  command result, \<^verbatim>\<open>executeCode\<close> answers with that error text and exit code 0. The
  sibling \<^verbatim>\<open>executeCodeInContainer\<close> of the enhanced service, on the same container
  answer, reports exit code 1.
\<close>

theorem failed_program_reported_with_exitCode_zero:
  "fst (executeCode languageTiers failingProgramRuntime raiseRequest aliceWithPython)
     = \<lparr>resultOutput = [], resultError = ''ZeroDivisionError'', exitCode = 0,
        files = Some [], executionTime = 0, resultContextId = ''alice-python-300''\<rparr>
   \<and> fst (executeCodeInContainer languageTiers failingProgramRuntime ''container-python''
        ''python'' ''main.py'' None aliceWithPython)
     = Inr \<lparr>resultOutput = [], resultError = ''ZeroDivisionError'', exitCode = 1,
        files = None, executionTime = 12\<rparr>"
  by (simp add: executeCode_def getOrCreatePersistentContext_def executeCodeInContext_def
      executeCodeInContainer_def writeCodeToContainer_def getCreatedFiles_def
      mutateContext_def contextKeyOf_def aliveProbe_def dquote_def squote_def
      replaceAllChar_def failingProgramRuntime_def exampleRuntime_def silent_def
      aliceContext_def raiseRequest_def alicePython_def aliceWithPython_def languageTiers_def
      pythonTier_def dockerExec_def Let_def showNat.simps
      char_of_eq_iff)

text \<open>
  Claim C6. A language without an install command must have \<^verbatim>\<open>installPackages\<close>
  rejected, and no command issued. The profiles of \<^verbatim>\<open>cpp\<close> and \<^verbatim>\<open>java\<close> give the empty
  array as install command, which the guard \<^verbatim>\<open>!languageConfig.packageInstallCommand\<close>
  takes for present: the call is not rejected, the bare package name is run as a command
  in the container and the name is recorded as installed.
\<close>

theorem install_on_cpp_and_java_not_rejected:
  "installPackages languageTiers steadyRuntime (aliceContext ''cpp'' 200) [''boost'']
      aliceAtLimit
     = (Inr (), (aliceContext ''cpp'' 200)\<lparr>installedPackages := {''boost''}\<rparr>,
        aliceAtLimit\<lparr>dockerCalls := [ExecuteCommand ''container-cpp'' ''boost'']\<rparr>)
   \<and> installPackages languageTiers steadyRuntime (aliceContext ''java'' 400) [''junit'']
      aliceAtLimit
     = (Inr (), (aliceContext ''java'' 400)\<lparr>installedPackages := {''junit''}\<rparr>,
        aliceAtLimit\<lparr>dockerCalls := [ExecuteCommand ''container-java'' ''junit'']\<rparr>)"
  by (simp add: installPackages_def steadyRuntime_def exampleRuntime_def silent_def
      aliceContext_def aliceAtLimit_def languageTiers_def cppTier_def javaTier_def
      dockerExec_def Let_def)

text \<open>
  Below the limit the quota check does nothing, and an unsupported language then leaves
  the state as it was.
\<close>

lemma enforce_below_limit:
  "length (filter (\<lambda>(k, c). userId c = uid) (persistentContexts s)) < MAX_CONTEXTS_PER_USER
     \<Longrightarrow> enforceUserContextLimit rt uid s = s"
  by (simp add: enforceUserContextLimit_def userContextsByAge_def evictWhileOverLimit_under)

lemma unsupported_language_below_limit:
  assumes "tiers lang = None"
    and "map_of (persistentContexts s) (contextKeyOf uid lang) = None"
    and "length (filter (\<lambda>(k, c). userId c = uid) (persistentContexts s))
           < MAX_CONTEXTS_PER_USER"
  shows "getOrCreatePersistentContext tiers rt uid lang s
           = (Inl (''Unsupported language: '' @ lang), s)"
  using assms
  by (simp add: getOrCreatePersistentContext_def createPersistentContext_unsupported
      enforce_below_limit)

text \<open>
  Claim C7. A request for a language with no profile must fail without touching the
  registry. \<^verbatim>\<open>getOrCreatePersistentContext\<close> enforces the quota before it looks the
  language up: for an owner at the limit, the request for \<^verbatim>\<open>ruby\<close> fails with the
  unsupported-language error after the owner's least recently used context has been
  destroyed and removed.
\<close>

theorem unsupported_language_evicts_a_context:
  "fst (executeCode languageTiers steadyRuntime rubyRequest aliceAtLimit)
     = \<lparr>resultOutput = [], resultError = ''Execution failed: Unsupported language: ruby'',
        exitCode = 1, files = None, executionTime = 0, resultContextId = ''error''\<rparr>
   \<and> map fst (persistentContexts aliceAtLimit)
     = [''alice:python'', ''alice:javascript'', ''alice:go'', ''alice:cpp'', ''alice:java'']
   \<and> map fst (persistentContexts
        (snd (executeCode languageTiers steadyRuntime rubyRequest aliceAtLimit)))
     = [''alice:python'', ''alice:go'', ''alice:cpp'', ''alice:java'']
   \<and> dockerCalls (snd (executeCode languageTiers steadyRuntime rubyRequest aliceAtLimit))
     = [DestroyContainer ''container-javascript'']"
  by (simp add: executeCode_def getOrCreatePersistentContext_def createPersistentContext_def
      enforceUserContextLimit_def userContextsByAge_def executionFailed_def
      MAX_CONTEXTS_PER_USER_def contextKeyOf_def
      steadyRuntime_def exampleRuntime_def silent_def aliceContext_def aliceAtLimit_def
      rubyRequest_def languageTiers_def dockerDestroy_def Let_def)

section \<open>Properties of the room sweep\<close>

lemma callOutside_effect:
  "callOutside f c s = (r, s1) \<Longrightarrow>
     roomTerminals s1 = roomTerminals s \<and> userSessions s1 = userSessions s
     \<and> termCalls s1 = termCalls s @ [c]"
  by (auto simp: callOutside_def split: prod.splits)

text \<open>
  When no handler runs while the sweep waits, the test before \<^verbatim>\<open>stop\<close> does its work: a
  room that has a session when the sweep starts is registered, unchanged, when it ends.
\<close>

lemma awaitOutside_uninterrupted:
  "awaitOutside rt jr f c [] s = (r, later, s1) \<Longrightarrow>
     later = [] \<and> roomTerminals s1 = roomTerminals s \<and> userSessions s1 = userSessions s
     \<and> (r, s1) = callOutside f c s"
  by (auto simp: awaitOutside_def callOutside_def split: prod.splits)

lemma uninterrupted_sweep_spares_rooms_with_sessions:
  "schedule = [] \<Longrightarrow> distinct (map fst (roomTerminals s)) \<Longrightarrow>
   map_of (roomTerminals s) rid = Some room \<Longrightarrow> activeSessions room \<noteq> [] \<Longrightarrow>
   map_of (roomTerminals (removeUnusedFrom rt jr now i schedule s)) rid = Some room"
proof (induction rt jr now i schedule s rule: removeUnusedFrom.induct)
  case (1 rt jr now i schedule s)
  show ?case
  proof (cases "i < length (roomTerminals s)")
    case False
    with "1.prems" show ?thesis by (simp add: removeUnusedFrom.simps)
  next
    case True
    obtain k r0 where at: "roomTerminals s ! i = (k, r0)" by (cases "roomTerminals s ! i")
    show ?thesis
    proof (cases "now - lastActivity r0 > maxUnusedTime \<and> length (activeSessions r0) = 0")
      case False
      with True at have "removeUnusedFrom rt jr now i schedule s
          = removeUnusedFrom rt jr now (Suc i) schedule s"
        by (subst removeUnusedFrom.simps) (auto simp: Let_def)
      moreover from "1.IH"(4) [OF True at [symmetric] refl False] "1.prems"
      have "map_of (roomTerminals (removeUnusedFrom rt jr now (Suc i) schedule s)) rid
          = Some room" by simp
      ultimately show ?thesis by simp
    next
      case idle: True
      from True at have mem: "(k, r0) \<in> set (roomTerminals s)"
        by (metis nth_mem)
      have ne: "k \<noteq> rid"
      proof
        assume "k = rid"
        with mem "1.prems"(2,3) have "r0 = room" by simp
        with idle "1.prems"(4) show False by simp
      qed
      obtain a later s1 where a1: "awaitOutside rt jr (containerStop rt (roomContainerId r0) 10)
          (ContainerStop (roomContainerId r0) 10) schedule s = (a, later, s1)"
        by (cases "awaitOutside rt jr (containerStop rt (roomContainerId r0) 10)
          (ContainerStop (roomContainerId r0) 10) schedule s")
      from awaitOutside_uninterrupted [OF a1 [unfolded "1.prems"(1)]]
      have l1: "later = []" and r1: "roomTerminals s1 = roomTerminals s" by simp_all
      show ?thesis
      proof (cases a)
        case (Inl e)
        with True at idle a1 have "removeUnusedFrom rt jr now i schedule s
            = removeUnusedFrom rt jr now (Suc i) later s1"
          by (subst removeUnusedFrom.simps) (simp add: Let_def)
        moreover from "1.IH"(1) [OF True at [symmetric] refl idle _ Inl, of "(later, s1)" later s1]
          a1 l1 r1 "1.prems"
        have "map_of (roomTerminals (removeUnusedFrom rt jr now (Suc i) later s1)) rid
            = Some room" by simp
        ultimately show ?thesis by simp
      next
        case (Inr u)
        obtain b later2 s2 where a2: "awaitOutside rt jr
            (containerRemove rt (roomContainerId r0) True)
            (ContainerRemove (roomContainerId r0) True) later s1 = (b, later2, s2)"
          by (cases "awaitOutside rt jr (containerRemove rt (roomContainerId r0) True)
            (ContainerRemove (roomContainerId r0) True) later s1")
        from awaitOutside_uninterrupted [OF a2 [unfolded l1]]
        have l2: "later2 = []" and r2: "roomTerminals s2 = roomTerminals s1" by simp_all
        show ?thesis
        proof (cases b)
          case bl: (Inl e)
          with True at idle a1 a2 Inr have "removeUnusedFrom rt jr now i schedule s
              = removeUnusedFrom rt jr now (Suc i) later2 s2"
            by (subst removeUnusedFrom.simps) (simp add: Let_def)
          moreover from "1.IH"(2) [OF True at [symmetric] refl idle _ Inr _ _ bl,
              of "(later, s1)" later s1 "(later2, s2)" later2 s2]
            a1 a2 l2 r1 r2 "1.prems"
          have "map_of (roomTerminals (removeUnusedFrom rt jr now (Suc i) later2 s2)) rid
              = Some room" by simp
          ultimately show ?thesis by simp
        next
          case br: (Inr u2)
          let ?s3 = "s2\<lparr>roomTerminals := AList.delete k (roomTerminals s2)\<rparr>"
          from True at idle a1 a2 Inr br have "removeUnusedFrom rt jr now i schedule s
              = removeUnusedFrom rt jr now i later2 ?s3"
            by (subst removeUnusedFrom.simps) (simp add: Let_def)
          moreover from "1.IH"(3) [OF True at [symmetric] refl idle _ Inr _ _ br,
              of "(later, s1)" later s1 "(later2, s2)" later2 s2]
            a1 a2 l2 r1 r2 "1.prems" ne
          have "map_of (roomTerminals (removeUnusedFrom rt jr now i later2 ?s3)) rid
              = Some room"
            by (simp add: AList.distinct_delete)
          ultimately show ?thesis by simp
        qed
      qed
    qed
  qed
qed

text \<open>
  Two rooms idle for two hours and no handler in between: the room without a session is
  stopped, removed and deleted, the room with a session is left alone.
\<close>

lemma twoIdleRooms_swept_uninterrupted:
  "roomTerminals (cleanupUnusedRoomTerminals steadyTerminalRuntime memberRuntime []
      twoIdleRooms) = [(''room-a'', busyRoom)]
   \<and> termCalls (cleanupUnusedRoomTerminals steadyTerminalRuntime memberRuntime []
        twoIdleRooms)
       = [ContainerStop ''container-b'' 10, ContainerRemove ''container-b'' True]"
  by (simp add: cleanupUnusedRoomTerminals_def removeUnusedFrom.simps awaitOutside_def
      callOutside_def twoIdleRooms_def busyRoom_def emptyRoom_def
      steadyTerminalRuntime_def maxUnusedTime_def Let_def)

text \<open>
  Claim C9. A room terminal with an active session must never be destroyed by the room
  sweep. The sweep counts the sessions of a room once, before it awaits
  \<^verbatim>\<open>container.stop\<close>, and does not look again. A \<^verbatim>\<open>join-room-terminal\<close> handled during
  that await finds the room still registered and enters its session there; the sweep
  then removes the container and deletes the room, which has an active session by then.
  The session stays in \<^verbatim>\<open>userSessions\<close>, bound to the removed container.
\<close>

theorem room_joined_during_sweep_is_destroyed:
  "map_of (roomTerminals oneIdleRoom) ''room-b'' = Some emptyRoom
   \<and> activeSessions emptyRoom = []
   \<and> map_of (roomTerminals (snd (snd (awaitOutside steadyTerminalRuntime memberRuntime
        (containerStop steadyTerminalRuntime ''container-b'' 10)
        (ContainerStop ''container-b'' 10) joinDuringStop oneIdleRoom)))) ''room-b''
       = Some (emptyRoom\<lparr>activeSessions := [(''socket-2'', ''session-2'')]\<rparr>)
   \<and> roomTerminals (cleanupUnusedRoomTerminals steadyTerminalRuntime memberRuntime
        joinDuringStop oneIdleRoom) = []
   \<and> termCalls (cleanupUnusedRoomTerminals steadyTerminalRuntime memberRuntime
        joinDuringStop oneIdleRoom)
       = [ContainerStop ''container-b'' 10, ContainerRemove ''container-b'' True]
   \<and> userSessions (cleanupUnusedRoomTerminals steadyTerminalRuntime memberRuntime
        joinDuringStop oneIdleRoom)
       = [(''socket-2'',
           \<lparr>sessionId = ''session-2'', sessionContainerId = ''container-b'',
            sessionRoomId = ''room-b'', sessionUserId = ''bob'', execInstance = None,
            isActive = True, startTime = 7200001\<rparr>)]"
  by (simp add: cleanupUnusedRoomTerminals_def removeUnusedFrom.simps awaitOutside_def
      callOutside_def joinRoomTerminal_def verifyRoomAccess_def getOrCreateRoomTerminal_def
      createTerminalSession_def oneIdleRoom_def emptyRoom_def joinDuringStop_def
      steadyTerminalRuntime_def memberRuntime_def maxUnusedTime_def Let_def)

section \<open>Properties of the session sweep and of the input handler\<close>

lemma endStream_effect:
  "roomTerminals (endStream rt session s) = roomTerminals s
   \<and> userSessions (endStream rt session s) = userSessions s"
  by (auto simp: endStream_def callOutside_def split: option.splits prod.splits)

lemma handleDisconnect_sessions:
  "map_of (userSessions (handleDisconnect rt k s)) k' =
     (if k' = k then None else map_of (userSessions s) k')"
  by (auto simp: handleDisconnect_def Let_def endStream_effect AList.delete_conv
      split: option.splits)

lemma handleDisconnect_rooms:
  "roomTerminals (handleDisconnect rt k s) =
     (case map_of (userSessions s) k of
        None \<Rightarrow> roomTerminals s
      | Some session \<Rightarrow>
          AList.map_entry (sessionRoomId session)
            (\<lambda>room. room\<lparr>activeSessions := AList.delete k (activeSessions room)\<rparr>)
            (roomTerminals s))"
  by (auto simp: handleDisconnect_def Let_def endStream_effect split: option.splits)

lemma disconnectOld_sessions:
  "map_of (userSessions (disconnectOld rt now es s)) k =
     (if \<exists>session. (k, session) \<in> set es \<and> now - startTime session > maxInactiveTime
      then None else map_of (userSessions s) k)"
proof (induction es arbitrary: s)
  case Nil
  then show ?case by simp
next
  case (Cons e es)
  obtain k' session' where e: "e = (k', session')" by (cases e)
  show ?case
    unfolding e by (auto simp: Let_def Cons.IH handleDisconnect_sessions)
qed

lemma handleDisconnect_notInRoom_keeps:
  "notInRoom rid k s \<Longrightarrow> notInRoom rid k (handleDisconnect rt k' s)"
  by (auto simp: notInRoom_def handleDisconnect_rooms AList.map_of_map_entry AList.delete_conv
      split: option.splits if_splits)

lemma handleDisconnect_notInRoom_makes:
  "map_of (userSessions s) k = Some session \<Longrightarrow>
     notInRoom (sessionRoomId session) k (handleDisconnect rt k s)"
  by (auto simp: notInRoom_def handleDisconnect_rooms AList.map_of_map_entry AList.delete_conv
      split: option.splits if_splits)

lemma disconnectOld_notInRoom_keeps:
  "notInRoom rid k s \<Longrightarrow> notInRoom rid k (disconnectOld rt now es s)"
proof (induction es arbitrary: s)
  case Nil
  then show ?case by simp
next
  case (Cons e es)
  obtain k' session' where e: "e = (k', session')" by (cases e)
  show ?case
    unfolding e using Cons.prems
    by (auto simp: Let_def intro!: Cons.IH handleDisconnect_notInRoom_keeps)
qed

lemma disconnectOld_notInRoom_makes:
  "distinct (map fst es) \<Longrightarrow> (k, session) \<in> set es \<Longrightarrow>
   now - startTime session > maxInactiveTime \<Longrightarrow>
   map_of (userSessions s) k = Some session \<Longrightarrow>
   notInRoom (sessionRoomId session) k (disconnectOld rt now es s)"
proof (induction es arbitrary: s)
  case Nil
  then show ?case by simp
next
  case (Cons e es)
  obtain k' session' where e: "e = (k', session')" by (cases e)
  show ?case
  proof (cases "k' = k")
    case True
    with Cons.prems(1,2) e have same: "session' = session"
      by (auto simp: image_iff)
    have "notInRoom (sessionRoomId session) k (handleDisconnect rt k s)"
      by (rule handleDisconnect_notInRoom_makes) (rule Cons.prems(4))
    then have "notInRoom (sessionRoomId session) k
        (disconnectOld rt now es (handleDisconnect rt k s))"
      by (rule disconnectOld_notInRoom_keeps)
    with Cons.prems(3) show ?thesis
      unfolding e True same by (simp add: Let_def)
  next
    case False
    with Cons.prems(2) e have mem: "(k, session) \<in> set es" by auto
    from Cons.prems(1) have d: "distinct (map fst es)" by simp
    from False Cons.prems(4) have
      "map_of (userSessions (handleDisconnect rt k' s)) k = Some session"
      by (simp add: handleDisconnect_sessions)
    with Cons.prems(3,4) mem d show ?thesis
      unfolding e by (auto simp: Let_def intro!: Cons.IH)
  qed
qed


lemma map_fst_map_entry: "map fst (AList.map_entry k f xs) = map fst xs"
  by (induction xs) auto

lemma agesKept_refl: "agesKept s s"
  by (simp add: agesKept_def)

lemma agesKept_trans: "agesKept s s1 \<Longrightarrow> agesKept s1 s2 \<Longrightarrow> agesKept s s2"
  unfolding agesKept_def by fastforce

lemma agesKept_same_sessions: "userSessions s' = userSessions s \<Longrightarrow> agesKept s s'"
  by (simp add: agesKept_def)

lemma agesKept_storeSession:
  "map_of (userSessions s) k = Some old \<Longrightarrow> startTime new = startTime old \<Longrightarrow>
   sessionRoomId new = sessionRoomId old \<Longrightarrow> agesKept s (storeSession k new s)"
  by (auto simp: agesKept_def storeSession_def map_fst_map_entry AList.map_of_map_entry)

lemma storeSession_lookup:
  "map_of (userSessions s) k = Some old \<Longrightarrow>
   map_of (userSessions (storeSession k new s)) k = Some new"
  by (simp add: storeSession_def AList.map_of_map_entry)

lemma openExec_agesKept:
  assumes "map_of (userSessions s) k = Some session"
  shows "agesKept s (snd (openExec rt k session s))"
proof (cases "execInstance session")
  case (Some inst)
  then show ?thesis by (simp add: openExec_def agesKept_refl)
next
  case None
  obtain r1 s1 where c1: "callOutside (containerExec rt (sessionContainerId session))
      (ContainerExec (sessionContainerId session)) s = (r1, s1)"
    by (cases "callOutside (containerExec rt (sessionContainerId session))
      (ContainerExec (sessionContainerId session)) s")
  note e1 = callOutside_effect [OF c1]
  then have k1: "agesKept s s1" by (simp add: agesKept_same_sessions)
  show ?thesis
  proof (cases r1)
    case (Inl e)
    with None c1 k1 show ?thesis by (simp add: openExec_def)
  next
    case (Inr h)
    define session1 where
      "session1 = session\<lparr>execInstance := Some \<lparr>execHandle = h, execStream = None\<rparr>\<rparr>"
    from assms e1 have l1: "map_of (userSessions s1) k = Some session" by simp
    then have k2: "agesKept s1 (storeSession k session1 s1)"
      by (rule agesKept_storeSession) (simp_all add: session1_def)
    from l1 have l2: "map_of (userSessions (storeSession k session1 s1)) k = Some session1"
      by (rule storeSession_lookup)
    obtain r2 s2 where c2: "callOutside (execStart rt h) (ExecStart h)
        (storeSession k session1 s1) = (r2, s2)"
      by (cases "callOutside (execStart rt h) (ExecStart h) (storeSession k session1 s1)")
    note e2 = callOutside_effect [OF c2]
    then have k3: "agesKept (storeSession k session1 s1) s2"
      by (simp add: agesKept_same_sessions)
    from k1 k2 k3 have k13: "agesKept s s2" by (blast intro: agesKept_trans)
    show ?thesis
    proof (cases r2)
      case (Inl e)
      with None Inr c1 c2 k13 show ?thesis
        by (simp add: openExec_def Let_def session1_def)
    next
      case r2: (Inr st)
      from l2 e2 have l3: "map_of (userSessions s2) k = Some session1" by simp
      then have "agesKept s2 (storeSession k
          (session1\<lparr>execInstance := Some \<lparr>execHandle = h, execStream = Some st\<rparr>\<rparr>) s2)"
        by (rule agesKept_storeSession) simp_all
      with k13 have "agesKept s (storeSession k
          (session1\<lparr>execInstance := Some \<lparr>execHandle = h, execStream = Some st\<rparr>\<rparr>) s2)"
        by (rule agesKept_trans)
      with None Inr c1 c2 r2 show ?thesis
        by (simp add: openExec_def Let_def session1_def)
    qed
  qed
qed

lemma terminalInput_agesKept: "agesKept s (terminalInput rt k inp s)"
proof (cases "map_of (userSessions s) k")
  case None
  then show ?thesis by (simp add: terminalInput_def agesKept_refl)
next
  case (Some session)
  show ?thesis
  proof (cases "isActive session")
    case False
    with Some show ?thesis by (simp add: terminalInput_def agesKept_refl)
  next
    case True
    obtain r1 s1 where o: "openExec rt k session s = (r1, s1)"
      by (cases "openExec rt k session s")
    from openExec_agesKept [OF Some, of rt] o have k1: "agesKept s s1" by simp
    have "\<And>s2. userSessions s2 = userSessions s1 \<Longrightarrow> agesKept s s2"
      using k1 by (blast intro: agesKept_trans agesKept_same_sessions)
    then show ?thesis
      using Some True o k1
      by (auto simp: terminalInput_def split: sum.splits option.splits prod.splits
          dest!: callOutside_effect)
  qed
qed

lemma terminalInputs_agesKept: "agesKept s (terminalInputs rt inputs s)"
proof (induction inputs arbitrary: s)
  case Nil
  then show ?case by (simp add: agesKept_refl)
next
  case (Cons i inputs)
  obtain k inp where i: "i = (k, inp)" by (cases i)
  show ?case
    unfolding i using terminalInput_agesKept [of s rt k inp] Cons.IH
    by (auto intro: agesKept_trans)
qed

text \<open>
  Claim C10. The session sweep disconnects a session once more than 30 minutes have passed
  since its \<^verbatim>\<open>startTime\<close>, whatever inputs the session (or any other) has sent in between:
  inputs never change a start time, the sweep compares the clock with the start time only,
  and a session older than 30 minutes is gone from \<^verbatim>\<open>userSessions\<close> and from its room's
  active sessions afterwards, while a session that is not older stays.
\<close>

theorem session_sweep_reaps_by_age:
  assumes d: "distinct (map fst (userSessions s0))"
    and l: "map_of (userSessions s0) socketId = Some session"
    and s: "s = terminalInputs rt inputs s0"
  shows "maxInactiveTime = 30 * 60 * 1000
     \<and> (newDate rt (termWorld s) - startTime session > maxInactiveTime \<longrightarrow>
          map_of (userSessions (cleanupInactiveSessions rt s)) socketId = None
          \<and> notInRoom (sessionRoomId session) socketId (cleanupInactiveSessions rt s))
     \<and> (newDate rt (termWorld s) - startTime session \<le> maxInactiveTime \<longrightarrow>
          (\<exists>session'. map_of (userSessions (cleanupInactiveSessions rt s)) socketId
               = Some session'
             \<and> startTime session' = startTime session))"
proof -
  have kept: "agesKept s0 s"
    unfolding s by (rule terminalInputs_agesKept)
  with l obtain session1 where l1: "map_of (userSessions s) socketId = Some session1"
    and t1: "startTime session1 = startTime session"
    and r1: "sessionRoomId session1 = sessionRoomId session"
    unfolding agesKept_def by blast
  from kept d have d1: "distinct (map fst (userSessions s))"
    by (simp add: agesKept_def)
  from l1 have mem: "(socketId, session1) \<in> set (userSessions s)"
    by (rule map_of_SomeD)
  have old: "map_of (userSessions (cleanupInactiveSessions rt s)) socketId = None
      \<and> notInRoom (sessionRoomId session) socketId (cleanupInactiveSessions rt s)"
    if "newDate rt (termWorld s) - startTime session > maxInactiveTime"
  proof
    from that t1 mem
    show "map_of (userSessions (cleanupInactiveSessions rt s)) socketId = None"
      by (auto simp: cleanupInactiveSessions_def disconnectOld_sessions)
    from that t1 have "newDate rt (termWorld s) - startTime session1 > maxInactiveTime"
      by simp
    from disconnectOld_notInRoom_makes [OF d1 mem this l1, of rt]
    show "notInRoom (sessionRoomId session) socketId (cleanupInactiveSessions rt s)"
      by (simp add: cleanupInactiveSessions_def r1)
  qed
  have young: "\<exists>session'. map_of (userSessions (cleanupInactiveSessions rt s)) socketId
               = Some session' \<and> startTime session' = startTime session"
    if "newDate rt (termWorld s) - startTime session \<le> maxInactiveTime"
  proof -
    have "\<not> (\<exists>session'. (socketId, session') \<in> set (userSessions s)
        \<and> newDate rt (termWorld s) - startTime session' > maxInactiveTime)"
    proof
      assume "\<exists>session'. (socketId, session') \<in> set (userSessions s)
        \<and> newDate rt (termWorld s) - startTime session' > maxInactiveTime"
      then obtain session' where m: "(socketId, session') \<in> set (userSessions s)"
        and o: "newDate rt (termWorld s) - startTime session' > maxInactiveTime"
        by blast
      from d1 m l1 have "session' = session1" by simp
      with o t1 that show False by simp
    qed
    then have "map_of (userSessions (cleanupInactiveSessions rt s)) socketId = Some session1"
      by (simp add: cleanupInactiveSessions_def disconnectOld_sessions l1)
    with t1 show ?thesis by blast
  qed
  from old young show ?thesis
    by (simp add: maxInactiveTime_def)
qed

text \<open>
  A session opened at time 0 sends four inputs, the last one forty minutes later: its room
  was active a moment ago, and the sweep disconnects the session all the same.
\<close>

lemma after_fourInputs:
  "termWorld (terminalInputs steadyTerminalRuntime fourInputs freshSession) = 2400000
   \<and> map (\<lambda>(k, room). (k, lastActivity room))
       (roomTerminals (terminalInputs steadyTerminalRuntime fourInputs freshSession))
       = [(''room-a'', 2400000)]"
  by (simp add: fourInputs_def freshSession_def steadyTerminalRuntime_def firstSession_def
      busyRoom_def terminalInput_def openExec_def storeSession_def callOutside_def Let_def)

theorem session_sweep_reaps_by_age_witness:
  "distinct (map fst (userSessions freshSession))
   \<and> map_of (userSessions freshSession) ''socket-1'' = Some firstSession
   \<and> newDate steadyTerminalRuntime
        (termWorld (terminalInputs steadyTerminalRuntime fourInputs freshSession))
       - startTime firstSession > maxInactiveTime
   \<and> map (\<lambda>(k, room). (k, lastActivity room))
       (roomTerminals (terminalInputs steadyTerminalRuntime fourInputs freshSession))
       = [(''room-a'', 2400000)]
   \<and> map_of (userSessions (cleanupInactiveSessions steadyTerminalRuntime
        (terminalInputs steadyTerminalRuntime fourInputs freshSession))) ''socket-1'' = None
   \<and> notInRoom ''room-a'' ''socket-1'' (cleanupInactiveSessions steadyTerminalRuntime
        (terminalInputs steadyTerminalRuntime fourInputs freshSession))"
proof -
  have d: "distinct (map fst (userSessions freshSession))"
    by (simp add: freshSession_def)
  have l: "map_of (userSessions freshSession) ''socket-1'' = Some firstSession"
    by (simp add: freshSession_def)
  have o: "newDate steadyTerminalRuntime
        (termWorld (terminalInputs steadyTerminalRuntime fourInputs freshSession))
       - startTime firstSession > maxInactiveTime"
    by (simp add: after_fourInputs)
       (simp add: steadyTerminalRuntime_def firstSession_def maxInactiveTime_def)
  have r: "sessionRoomId firstSession = ''room-a''"
    by (simp add: firstSession_def)
  from session_sweep_reaps_by_age [OF d l refl, of steadyTerminalRuntime fourInputs] o r
  have g: "map_of (userSessions (cleanupInactiveSessions steadyTerminalRuntime
        (terminalInputs steadyTerminalRuntime fourInputs freshSession))) ''socket-1'' = None
   \<and> notInRoom ''room-a'' ''socket-1'' (cleanupInactiveSessions steadyTerminalRuntime
        (terminalInputs steadyTerminalRuntime fourInputs freshSession))"
    by simp
  from d l o g after_fourInputs show ?thesis by blast
qed


end
